theory Spec2Isabelle
  imports Complex_Main "HOL-Library.Char_ord" "HOL-Library.List_Lexorder"
begin

section \<open>JSON values and Python dictionaries\<close>

text \<open>
  The scripts read and write JSON documents. A JSON value as Python's \<open>json\<close> module
  hands it out: \<open>None\<close>, a bool, an int, a float, a str, a list or a dict. The float
  type is a parameter: rates are only passed through, never computed with.
\<close>

datatype 'f json =
    JNull
  | JBool bool
  | JInt int
  | JFloat 'f
  | JStr string
  | JArr "'f json list"
  | JObj "(string \<times> 'f json) list"

text \<open>
  A Python \<open>dict\<close> keeps its keys in insertion order and holds each key once. It is
  modelled as an association list; \<open>wf_dict\<close> is the representation invariant
  (no key twice) that every dict built or loaded by the scripts satisfies.
\<close>

type_synonym ('k, 'v) dict = "('k \<times> 'v) list"

definition wf_dict :: "('k, 'v) dict \<Rightarrow> bool" where
  "wf_dict d = distinct (map fst d)"

text \<open>\<open>d.get(k)\<close>: the value under \<open>k\<close>, or nothing.\<close>

fun dict_get :: "('k, 'v) dict \<Rightarrow> 'k \<Rightarrow> 'v option" where
  "dict_get [] k = None"
| "dict_get ((a, b) # d) k = (if a = k then Some b else dict_get d k)"

text \<open>\<open>k in d\<close>.\<close>

definition dict_contains :: "'k \<Rightarrow> ('k, 'v) dict \<Rightarrow> bool" where
  "dict_contains k d = (dict_get d k \<noteq> None)"

text \<open>\<open>d.get(k, dflt)\<close>.\<close>

definition get_default :: "('k, 'v) dict \<Rightarrow> 'k \<Rightarrow> 'v \<Rightarrow> 'v" where
  "get_default d k dflt = (case dict_get d k of None \<Rightarrow> dflt | Some v \<Rightarrow> v)"

text \<open>
  \<open>d[k] = v\<close>: an existing key keeps its place and gets the new value, a new key goes
  to the end.
\<close>

fun dict_set :: "('k, 'v) dict \<Rightarrow> 'k \<Rightarrow> 'v \<Rightarrow> ('k, 'v) dict" where
  "dict_set [] k v = [(k, v)]"
| "dict_set ((a, b) # d) k v = (if a = k then (a, v) # d else (a, b) # dict_set d k v)"

text \<open>\<open>d.update(other)\<close>: the entries of \<open>other\<close> are assigned one by one, in order.\<close>

definition dict_update :: "('k, 'v) dict \<Rightarrow> ('k, 'v) dict \<Rightarrow> ('k, 'v) dict" where
  "dict_update d other = fold (\<lambda>(k, v) acc. dict_set acc k v) other d"

text \<open>\<open>len(d)\<close>, \<open>d.keys()\<close>, \<open>d.values()\<close>.\<close>

definition dict_len :: "('k, 'v) dict \<Rightarrow> nat" where
  "dict_len d = length d"

definition dict_keys :: "('k, 'v) dict \<Rightarrow> 'k list" where
  "dict_keys d = map fst d"

definition dict_values :: "('k, 'v) dict \<Rightarrow> 'v list" where
  "dict_values d = map snd d"

section \<open>The historical dataset\<close>

text \<open>
  A rate row is a list of JSON values (a float or \<open>None\<close>), a year bucket maps day-keys to
  rows, and the history maps year-keys to buckets.
\<close>

type_synonym 'f row = "'f json list"
type_synonym 'f bucket = "(string, 'f row) dict"
type_synonym 'f years = "(string, 'f bucket) dict"

text \<open>\<open>TARGET_CURRENCIES\<close>, the same list in both update scripts.\<close>

definition TARGET_CURRENCIES :: "string list" where
  "TARGET_CURRENCIES =
    [''AUD'', ''CAD'', ''CHF'', ''CZK'', ''DKK'', ''GBP'', ''HKD'', ''HUF'', ''JPY'', ''KRW'',
     ''NOK'', ''NZD'', ''PLN'', ''SEK'', ''SGD'', ''USD'', ''ZAR'', ''TRY'', ''IDR'', ''MYR'',
     ''PHP'', ''THB'', ''RON'', ''MXN'', ''CNY'', ''BRL'', ''INR'', ''ILS'', ''BGN'']"

text \<open>
  The module-level constant is read by every function; here it is the parameter
  \<open>targets\<close>, so that the functions can be stated for the constant above and for any
  other allow-list.

  The row of \<open>update_currency_data.py\<close>, lines 101-103:
  \<^verbatim>\<open>
  rates_array = []
  for currency in TARGET_CURRENCIES:
      rates_array.append(latest_rates.get(currency, None))
  \<close>
  and of \<open>update_and_deploy.py\<close>, lines 111-113:
  \<^verbatim>\<open>
  [latest_rates.get(currency, None) for currency in TARGET_CURRENCIES]
  \<close>
\<close>

definition rates_array :: "string list \<Rightarrow> (string, 'f json) dict \<Rightarrow> 'f row" where
  "rates_array targets latest_rates =
     fold (\<lambda>currency acc. acc @ [get_default latest_rates currency JNull]) targets []"

definition rates_list :: "string list \<Rightarrow> (string, 'f json) dict \<Rightarrow> 'f row" where
  "rates_list targets latest_rates =
     map (\<lambda>currency. get_default latest_rates currency JNull) targets"

text \<open>
  Both scripts then store the row (lines 96-97 and 105, lines 107-108 and 111):
  \<^verbatim>\<open>
  if current_year not in data[Y]:
      data[Y][current_year] = {}
  data[Y][current_year][day_key] = row
  \<close>
  The inner assignment changes the bucket that the history holds under
  \<open>current_year\<close>; the bucket keeps its place in the history. After the guard the
  bucket exists, so the \<open>KeyError\<close> of the last line (the \<open>None\<close> case) is never
  reached.
\<close>

definition ensure_year :: "'f years \<Rightarrow> string \<Rightarrow> 'f years" where
  "ensure_year years current_year =
     (if \<not> dict_contains current_year years then dict_set years current_year [] else years)"

definition store_row :: "'f years \<Rightarrow> string \<Rightarrow> string \<Rightarrow> 'f row \<Rightarrow> 'f years" where
  "store_row years current_year day_key row =
     (let years1 = ensure_year years current_year
      in case dict_get years1 current_year of
           Some year_data \<Rightarrow> dict_set years1 current_year (dict_set year_data day_key row)
         | None \<Rightarrow> years1)"

text \<open>\<open>sum(len(year_data) for year_data in data[Y].values())\<close>.\<close>

definition count_records :: "'f years \<Rightarrow> int" where
  "count_records years = int (sum_list (map dict_len (dict_values years)))"

text \<open>A stored row, if the year and the day are there.\<close>

definition lookup_row :: "'f years \<Rightarrow> string \<Rightarrow> string \<Rightarrow> 'f row option" where
  "lookup_row years y k =
     (case dict_get years y of None \<Rightarrow> None | Some year_data \<Rightarrow> dict_get year_data k)"

subsection \<open>The merge of \<open>update_currency_data.py\<close>\<close>

text \<open>
  The dataset of \<open>update_currency_data.py\<close>: the keys \<open>metadata\<close>, \<open>currencies\<close> (present
  in a dataset the script created itself) and \<open>rates_by_year\<close>.
\<close>

record 'f ucd_data =
  metadata :: "(string, 'f json) dict"
  currencies :: "'f json option"
  rates_by_year :: "'f years"

text \<open>
  Lines 96-112, the body of \<open>if latest_rates:\<close> up to the metadata update. The clock is
  read by the caller: \<open>today\<close> is \<open>datetime.now().strftime('%Y-%m-%d')\<close>,
  \<open>current_year\<close> is \<open>str(datetime.now().year)\<close> and \<open>now_iso\<close> is
  \<open>datetime.now().isoformat()\<close> at line 109. \<open>today[5:]\<close> is the month and day.
\<close>

definition ucd_merge ::
  "string list \<Rightarrow> 'f ucd_data \<Rightarrow> string \<Rightarrow> string \<Rightarrow> (string, 'f json) dict \<Rightarrow> string
     \<Rightarrow> 'f ucd_data" where
  "ucd_merge targets data0 current_year today latest_rates now_iso =
     (let month_day = drop 5 today;
          years = store_row (rates_by_year data0) current_year month_day
                    (rates_array targets latest_rates)
      in data0\<lparr>
           rates_by_year := years,
           metadata := dict_update (metadata data0)
             [(''last_updated'', JStr now_iso),
              (''latest_date'', JStr today),
              (''total_records'', JInt (count_records years))]\<rparr>)"

subsection \<open>The merge of \<open>update_and_deploy.py\<close>\<close>

text \<open>The dataset of \<open>update_and_deploy.py\<close>: the keys \<open>metadata\<close> and \<open>data\<close>.\<close>

record 'f uad_data =
  uad_metadata :: "(string, 'f json) dict"
  uad_years :: "'f years"

text \<open>Lines 107-119; the day-key is the whole date.\<close>

definition uad_merge ::
  "string list \<Rightarrow> 'f uad_data \<Rightarrow> string \<Rightarrow> string \<Rightarrow> (string, 'f json) dict \<Rightarrow> string
     \<Rightarrow> 'f uad_data" where
  "uad_merge targets data0 current_year today latest_rates now_iso =
     (let years = store_row (uad_years data0) current_year today
                    (rates_list targets latest_rates)
      in data0\<lparr>
           uad_years := years,
           uad_metadata := dict_update (uad_metadata data0)
             [(''last_updated'', JStr now_iso),
              (''total_records'', JInt (count_records years))]\<rparr>)"

text \<open>
  \<open>load_existing_data\<close> when there is no file yet. \<open>update_currency_data.py\<close>, lines
  64-76; the three clock readings are \<open>now_iso\<close>, \<open>now_date1\<close> and \<open>now_date2\<close>.
\<close>

definition ucd_new_structure :: "string list \<Rightarrow> string \<Rightarrow> string \<Rightarrow> string \<Rightarrow> 'f ucd_data" where
  "ucd_new_structure targets now_iso now_date1 now_date2 =
     \<lparr>metadata =
        [(''base_currency'', JStr ''EUR''),
         (''currencies'', JArr (map JStr targets)),
         (''data_source'', JStr ''European Central Bank via exchangerate-api.com''),
         (''last_updated'', JStr now_iso),
         (''total_records'', JInt 0),
         (''earliest_date'', JStr now_date1),
         (''latest_date'', JStr now_date2)],
      currencies = Some (JArr (map JStr targets)),
      rates_by_year = []\<rparr>"

text \<open>\<open>update_and_deploy.py\<close>, lines 78-87.\<close>

definition uad_new_structure :: "string list \<Rightarrow> string \<Rightarrow> 'f uad_data" where
  "uad_new_structure targets now_iso =
     \<lparr>uad_metadata =
        [(''base_currency'', JStr ''EUR''),
         (''currencies'', JArr (map JStr targets)),
         (''data_source'', JStr ''European Central Bank via exchangerate-api.com''),
         (''last_updated'', JStr now_iso),
         (''total_records'', JInt 0)],
      uad_years = []\<rparr>"

text \<open>
  What the record-count property of the specification speaks of: the sum, over the
  year-keys, of the number of day-keys in that year's bucket. \<open>wf_years\<close> says that the
  history and each of its buckets is a dictionary.
\<close>

definition wf_years :: "'f years \<Rightarrow> bool" where
  "wf_years years = (wf_dict years \<and> list_all wf_dict (dict_values years))"

definition day_keys_total :: "'f years \<Rightarrow> nat" where
  "day_keys_total years =
     (\<Sum>y \<in> set (dict_keys years). card (set (dict_keys (get_default years y []))))"

section \<open>The rate fetcher\<close>

text \<open>Python exceptions, all of them subclasses of \<open>Exception\<close>.\<close>

datatype py_exception =
    ConnectionError
  | Timeout
  | HTTPError
  | JSONDecodeError
  | AttributeError
  | TypeError
  | KeyError
  | ValueError
  | IndexError

text \<open>
  What the network does when \<open>requests.get(CURRENCY_API_URL, timeout=10)\<close> is called:
  the call raises, or a response arrives with a status code and a body that
  \<open>response.json()\<close> decodes (\<open>None\<close> when the body is not JSON).
  \<open>raise_for_status\<close> raises for the codes 400 to 599.
\<close>

datatype 'f api_outcome =
    GetRaises py_exception
  | Response nat "'f json option"

text \<open>\<open>p in s\<close> for two strings: \<open>p\<close> occurs in \<open>s\<close>.\<close>

fun is_prefix :: "string \<Rightarrow> string \<Rightarrow> bool" where
  "is_prefix [] s = True"
| "is_prefix (a # p) [] = False"
| "is_prefix (a # p) (b # s) = (a = b \<and> is_prefix p s)"

fun is_substring :: "string \<Rightarrow> string \<Rightarrow> bool" where
  "is_substring p [] = (p = [])"
| "is_substring p (b # s) = (is_prefix p (b # s) \<or> is_substring p s)"

text \<open>
  \<open>currency in rates\<close> and \<open>rates[currency]\<close> for whatever JSON value the response holds
  under \<open>rates\<close>: a dict is searched by key, a list by element, a str by substring, and
  the other values are not iterable; only a dict can be subscripted with a str.
\<close>

fun py_in :: "string \<Rightarrow> 'f json \<Rightarrow> py_exception + bool" where
  "py_in currency (JObj d) = Inr (dict_contains currency d)"
| "py_in currency (JArr xs) = Inr (JStr currency \<in> set xs)"
| "py_in currency (JStr s) = Inr (is_substring currency s)"
| "py_in currency JNull = Inl TypeError"
| "py_in currency (JBool b) = Inl TypeError"
| "py_in currency (JInt n) = Inl TypeError"
| "py_in currency (JFloat x) = Inl TypeError"

fun py_getitem :: "'f json \<Rightarrow> string \<Rightarrow> py_exception + 'f json" where
  "py_getitem (JObj d) currency =
     (case dict_get d currency of None \<Rightarrow> Inl KeyError | Some v \<Rightarrow> Inr v)"
| "py_getitem (JArr xs) currency = Inl TypeError"
| "py_getitem (JStr s) currency = Inl TypeError"
| "py_getitem JNull currency = Inl TypeError"
| "py_getitem (JBool b) currency = Inl TypeError"
| "py_getitem (JInt n) currency = Inl TypeError"
| "py_getitem (JFloat x) currency = Inl TypeError"

text \<open>
  The dict comprehension (lines 42-46 of \<open>update_currency_data.py\<close>, 45-49 of
  \<open>update_and_deploy.py\<close>):
  \<^verbatim>\<open>
  filtered_rates = {
      currency: rates[currency]
      for currency in TARGET_CURRENCIES
      if currency in rates
  }
  \<close>
\<close>

fun filter_rates ::
  "'f json \<Rightarrow> string list \<Rightarrow> (string, 'f json) dict \<Rightarrow> py_exception + (string, 'f json) dict" where
  "filter_rates rates [] acc = Inr acc"
| "filter_rates rates (currency # rest) acc =
     (case py_in currency rates of
        Inl e \<Rightarrow> Inl e
      | Inr False \<Rightarrow> filter_rates rates rest acc
      | Inr True \<Rightarrow>
          (case py_getitem rates currency of
             Inl e \<Rightarrow> Inl e
           | Inr v \<Rightarrow> filter_rates rates rest (dict_set acc currency v)))"

text \<open>
  The \<open>try\<close> block of \<open>fetch_latest_rates_from_api\<close>, the same in both scripts.
  \<open>data.get('rates', {})\<close> needs \<open>data\<close> to be a dict: the other JSON values have no
  \<open>get\<close>.
\<close>

definition fetch_try :: "string list \<Rightarrow> 'f api_outcome \<Rightarrow> py_exception + (string, 'f json) dict" where
  "fetch_try targets api =
     (case api of
        GetRaises e \<Rightarrow> Inl e
      | Response status body \<Rightarrow>
          if 400 \<le> status \<and> status < 600 then Inl HTTPError
          else (case body of
                  None \<Rightarrow> Inl JSONDecodeError
                | Some (JObj data) \<Rightarrow> filter_rates (get_default data ''rates'' (JObj [])) targets []
                | Some _ \<Rightarrow> Inl AttributeError))"

text \<open>\<open>except Exception as e: ... return None\<close>.\<close>

definition fetch_latest_rates_from_api ::
  "string list \<Rightarrow> 'f api_outcome \<Rightarrow> (string, 'f json) dict option" where
  "fetch_latest_rates_from_api targets api =
     (case fetch_try targets api of Inl e \<Rightarrow> None | Inr filtered_rates \<Rightarrow> Some filtered_rates)"

text \<open>
  The fetcher also prints three progress lines, two inside the \<open>try\<close> block and one in
  the handler:
  \<^verbatim>\<open>
  try:
      print("... Fetching latest rates from exchangerate-api.com...")
      ...
      print(f"... Fetched {len(filtered_rates)} currency rates")
      return filtered_rates
  except Exception as e:
      print(f"... Error fetching from API: {e}")
      return None
  \<close>
  Each line starts with a symbol outside ASCII. \<open>print\<close> can raise (an output stream
  that cannot encode the line, a closed stream); the console says for each message
  whether \<open>print\<close> returns (\<open>None\<close>) or which exception it raises. An exception of a
  \<open>print\<close> inside the \<open>try\<close> block is caught like any other; an exception of the
  handler's \<open>print\<close> leaves the function.
\<close>

datatype message =
    Fetching
  | Fetched nat
  | ErrorFetching py_exception

type_synonym console = "message \<Rightarrow> py_exception option"

text \<open>
  Two consoles: one that prints every line, and one whose encoding has none of the
  symbols, so that every \<open>print\<close> raises \<open>UnicodeEncodeError\<close>, a \<open>ValueError\<close>.
\<close>

definition utf8_console :: console where
  "utf8_console m = None"

definition ascii_console :: console where
  "ascii_console m = Some ValueError"

definition fetch_try_printing ::
  "console \<Rightarrow> string list \<Rightarrow> 'f api_outcome \<Rightarrow> py_exception + (string, 'f json) dict" where
  "fetch_try_printing console targets api =
     (case console Fetching of
        Some x \<Rightarrow> Inl x
      | None \<Rightarrow>
          (case fetch_try targets api of
             Inl e \<Rightarrow> Inl e
           | Inr filtered_rates \<Rightarrow>
               (case console (Fetched (dict_len filtered_rates)) of
                  Some x \<Rightarrow> Inl x
                | None \<Rightarrow> Inr filtered_rates)))"

text \<open>
  The whole function with its prints: \<open>Inr\<close> is what it returns, \<open>Inl\<close> an exception
  that reaches the caller.
\<close>

definition fetch_latest_rates_from_api_printing ::
  "console \<Rightarrow> string list \<Rightarrow> 'f api_outcome
     \<Rightarrow> py_exception + (string, 'f json) dict option" where
  "fetch_latest_rates_from_api_printing console targets api =
     (case fetch_try_printing console targets api of
        Inr filtered_rates \<Rightarrow> Inr (Some filtered_rates)
      | Inl e \<Rightarrow>
          (case console (ErrorFetching e) of
             Some x \<Rightarrow> Inl x
           | None \<Rightarrow> Inr None))"

section \<open>The derived documents\<close>

text \<open>\<open>latest.json\<close>.\<close>

record 'f latest_doc =
  ld_date :: string
  ld_base_currency :: string
  ld_rates :: "(string, 'f json) dict"
  ld_last_updated :: string

text \<open>
  \<open>metadata.json\<close>. \<open>date_range\<close> is written by \<open>update_currency_data.py\<close> only. The two
  file sizes are \<open>round(os.path.getsize(f) / 1024 / 1024, 2)\<close> and
  \<open>round(os.path.getsize(f) / 1024, 2)\<close>: floating-point values that depend on the
  serialised bytes, taken here from the environment.
\<close>

record 'f metadata_doc =
  md_base_currency :: string
  md_supported_currencies :: "string list"
  md_total_currencies :: int
  md_data_source :: string
  md_last_updated :: string
  md_total_records :: "'f json"
  md_latest_date :: string
  md_date_range :: "('f json \<times> string) option"
  md_full_data_mb :: 'f
  md_latest_kb :: 'f

text \<open>Lines 122-127 of \<open>update_currency_data.py\<close>, 129-134 of \<open>update_and_deploy.py\<close>.\<close>

definition latest_data :: "string \<Rightarrow> (string, 'f json) dict \<Rightarrow> string \<Rightarrow> 'f latest_doc" where
  "latest_data today latest_rates now_iso =
     \<lparr>ld_date = today, ld_base_currency = ''EUR'', ld_rates = latest_rates,
      ld_last_updated = now_iso\<rparr>"

text \<open>
  Lines 134-150 of \<open>update_currency_data.py\<close>. \<open>data['metadata']['total_records']\<close> is a
  subscript: a missing key raises.
\<close>

definition ucd_metadata_doc ::
  "string list \<Rightarrow> 'f ucd_data \<Rightarrow> string \<Rightarrow> string \<Rightarrow> 'f \<Rightarrow> 'f \<Rightarrow> py_exception + 'f metadata_doc" where
  "ucd_metadata_doc targets data1 today now_iso full_data_mb latest_kb =
     (case dict_get (metadata data1) ''total_records'' of
        None \<Rightarrow> Inl KeyError
      | Some total_records \<Rightarrow>
          Inr \<lparr>md_base_currency = ''EUR'',
               md_supported_currencies = [''EUR''] @ targets,
               md_total_currencies = int (length targets) + 1,
               md_data_source = ''European Central Bank via exchangerate-api.com'',
               md_last_updated = now_iso,
               md_total_records = total_records,
               md_latest_date = today,
               md_date_range = Some (get_default (metadata data1) ''earliest_date'' (JStr today), today),
               md_full_data_mb = full_data_mb,
               md_latest_kb = latest_kb\<rparr>)"

text \<open>Lines 141-153 of \<open>update_and_deploy.py\<close>.\<close>

definition uad_metadata_doc ::
  "string list \<Rightarrow> 'f uad_data \<Rightarrow> string \<Rightarrow> string \<Rightarrow> 'f \<Rightarrow> 'f \<Rightarrow> py_exception + 'f metadata_doc" where
  "uad_metadata_doc targets data1 today now_iso full_data_mb latest_kb =
     (case dict_get (uad_metadata data1) ''total_records'' of
        None \<Rightarrow> Inl KeyError
      | Some total_records \<Rightarrow>
          Inr \<lparr>md_base_currency = ''EUR'',
               md_supported_currencies = [''EUR''] @ targets,
               md_total_currencies = int (length targets) + 1,
               md_data_source = ''European Central Bank via exchangerate-api.com'',
               md_last_updated = now_iso,
               md_total_records = total_records,
               md_latest_date = today,
               md_date_range = None,
               md_full_data_mb = full_data_mb,
               md_latest_kb = latest_kb\<rparr>)"

section \<open>A run of an update script\<close>

text \<open>
  The files under the output directory, by path. A file holds a dataset, a derived
  document, or something the scripts cannot use (\<open>Unusable\<close>: text that \<open>json.load\<close>
  rejects, or JSON without the keys that the script subscripts; the exception then
  comes before the first write, and the interpreter ends with status 1).
  Serialisation is not modelled: a file is the document it holds.
\<close>

datatype 'f content =
    UcdDataset "'f ucd_data"
  | UadDataset "'f uad_data"
  | Latest "'f latest_doc"
  | Metadata "'f metadata_doc"
  | Unusable

type_synonym 'f files = "string \<Rightarrow> 'f content option"

text \<open>
  The readings of \<open>datetime.now()\<close> during a run, one per call, in the order of the
  source: three for a new structure, then \<open>today\<close>, \<open>current_year\<close>, and the
  \<open>last_updated\<close> stamps of the dataset, of \<open>latest.json\<close> and of \<open>metadata.json\<close>.
\<close>

record clock =
  clk_new_last_updated :: string
  clk_new_earliest_date :: string
  clk_new_latest_date :: string
  clk_today :: string
  clk_current_year :: string
  clk_merge_stamp :: string
  clk_latest_stamp :: string
  clk_metadata_stamp :: string

text \<open>
  What a run leaves behind: the exit status of the interpreter (\<open>exit(1)\<close> and an
  uncaught exception give 1, running to the end gives 0), the files, and the paths
  written, in the order of writing.
\<close>

record 'f outcome =
  exit_code :: int
  files_after :: "'f files"
  written :: "string list"

text \<open>\<open>os.path.join(DOCS_DIR, name)\<close> with \<open>DOCS_DIR = "docs"\<close> and \<open>"../docs"\<close>.\<close>

definition ucd_path :: "string \<Rightarrow> string" where
  "ucd_path name = ''docs/'' @ name"

definition uad_path :: "string \<Rightarrow> string" where
  "uad_path name = ''../docs/'' @ name"

text \<open>\<open>load_existing_data\<close> of \<open>update_currency_data.py\<close>, lines 55-76.\<close>

definition ucd_load_existing_data ::
  "string list \<Rightarrow> clock \<Rightarrow> 'f files \<Rightarrow> py_exception + 'f ucd_data" where
  "ucd_load_existing_data targets clk files =
     (case files (ucd_path ''currency_rates.json'') of
        None \<Rightarrow> Inr (ucd_new_structure targets (clk_new_last_updated clk)
                       (clk_new_earliest_date clk) (clk_new_latest_date clk))
      | Some (UcdDataset d) \<Rightarrow> Inr d
      | Some _ \<Rightarrow> Inl ValueError)"

text \<open>\<open>load_existing_data\<close> of \<open>update_and_deploy.py\<close>, lines 69-87.\<close>

definition uad_load_existing_data ::
  "string list \<Rightarrow> clock \<Rightarrow> 'f files \<Rightarrow> py_exception + 'f uad_data" where
  "uad_load_existing_data targets clk files =
     (case files (uad_path ''currency_rates.json'') of
        None \<Rightarrow> Inr (uad_new_structure targets (clk_new_last_updated clk))
      | Some (UadDataset d) \<Rightarrow> Inr d
      | Some _ \<Rightarrow> Inl ValueError)"

text \<open>
  \<open>update_currency_data\<close> of \<open>update_currency_data.py\<close>, lines 78-164, run as the
  script. \<open>if latest_rates:\<close> is false for \<open>None\<close> and for the empty dict.
  \<open>size_mb\<close> and \<open>size_kb\<close> give the rounded size of the file that holds a document.
\<close>

definition update_currency_data ::
  "string list \<Rightarrow> clock \<Rightarrow> ('f content \<Rightarrow> 'f) \<Rightarrow> ('f content \<Rightarrow> 'f) \<Rightarrow> 'f api_outcome
     \<Rightarrow> 'f files \<Rightarrow> 'f outcome" where
  "update_currency_data targets clk size_mb size_kb api files =
     (case ucd_load_existing_data targets clk files of
        Inl e \<Rightarrow> \<lparr>exit_code = 1, files_after = files, written = []\<rparr>
      | Inr data0 \<Rightarrow>
          (case fetch_latest_rates_from_api targets api of
             None \<Rightarrow> \<lparr>exit_code = 1, files_after = files, written = []\<rparr>
           | Some latest_rates \<Rightarrow>
               if latest_rates = [] then \<lparr>exit_code = 1, files_after = files, written = []\<rparr>
               else
                 let today = clk_today clk;
                     data1 = ucd_merge targets data0 (clk_current_year clk) today latest_rates
                               (clk_merge_stamp clk);
                     currency_file = ucd_path ''currency_rates.json'';
                     files1 = files(currency_file \<mapsto> UcdDataset data1);
                     latest = latest_data today latest_rates (clk_latest_stamp clk);
                     latest_file = ucd_path ''latest.json'';
                     files2 = files1(latest_file \<mapsto> Latest latest)
                 in case ucd_metadata_doc targets data1 today (clk_metadata_stamp clk)
                           (size_mb (UcdDataset data1)) (size_kb (Latest latest)) of
                      Inl e \<Rightarrow>
                        \<lparr>exit_code = 1, files_after = files2,
                         written = [currency_file, latest_file]\<rparr>
                    | Inr md \<Rightarrow>
                        \<lparr>exit_code = 0,
                         files_after = files2(ucd_path ''metadata.json'' \<mapsto> Metadata md),
                         written = [currency_file, latest_file, ucd_path ''metadata.json'']\<rparr>))"

text \<open>\<open>update_currency_data\<close> of \<open>update_and_deploy.py\<close>, lines 89-166, run as the script.\<close>

definition update_and_deploy ::
  "string list \<Rightarrow> clock \<Rightarrow> ('f content \<Rightarrow> 'f) \<Rightarrow> ('f content \<Rightarrow> 'f) \<Rightarrow> 'f api_outcome
     \<Rightarrow> 'f files \<Rightarrow> 'f outcome" where
  "update_and_deploy targets clk size_mb size_kb api files =
     (case uad_load_existing_data targets clk files of
        Inl e \<Rightarrow> \<lparr>exit_code = 1, files_after = files, written = []\<rparr>
      | Inr data0 \<Rightarrow>
          (case fetch_latest_rates_from_api targets api of
             None \<Rightarrow> \<lparr>exit_code = 1, files_after = files, written = []\<rparr>
           | Some latest_rates \<Rightarrow>
               if latest_rates = [] then \<lparr>exit_code = 1, files_after = files, written = []\<rparr>
               else
                 let today = clk_today clk;
                     data1 = uad_merge targets data0 (clk_current_year clk) today latest_rates
                               (clk_merge_stamp clk);
                     currency_file = uad_path ''currency_rates.json'';
                     files1 = files(currency_file \<mapsto> UadDataset data1);
                     latest = latest_data today latest_rates (clk_latest_stamp clk);
                     latest_file = uad_path ''latest.json'';
                     files2 = files1(latest_file \<mapsto> Latest latest)
                 in case uad_metadata_doc targets data1 today (clk_metadata_stamp clk)
                           (size_mb (UadDataset data1)) (size_kb (Latest latest)) of
                      Inl e \<Rightarrow>
                        \<lparr>exit_code = 1, files_after = files2,
                         written = [currency_file, latest_file]\<rparr>
                    | Inr md \<Rightarrow>
                        \<lparr>exit_code = 0,
                         files_after = files2(uad_path ''metadata.json'' \<mapsto> Metadata md),
                         written = [currency_file, latest_file, uad_path ''metadata.json'']\<rparr>))"

section \<open>The bootstrap script\<close>

text \<open>
  What \<open>bootstrap_currency_pages\<close> reads from the source file: \<open>data['data']\<close>,
  \<open>data['metadata']['currencies']\<close> and \<open>data['metadata']['total_records']\<close>.
\<close>

record 'f source_data =
  src_data :: "'f years"
  src_currencies :: "string list"
  src_total_records :: "'f json"

text \<open>
  \<open>max(keys)\<close>: \<open>ValueError\<close> on an empty sequence; otherwise the first of the greatest
  items, under the order of Python strings (by character, a proper prefix first).
\<close>

fun py_max :: "'a::linorder list \<Rightarrow> py_exception + 'a" where
  "py_max [] = Inl ValueError"
| "py_max (x # xs) = Inr (fold (\<lambda>item best. if best < item then item else best) xs x)"

text \<open>\<open>xs[i]\<close> for an index that is not negative.\<close>

definition py_index :: "'a list \<Rightarrow> nat \<Rightarrow> py_exception + 'a" where
  "py_index xs i = (if i < length xs then Inr (xs ! i) else Inl IndexError)"

text \<open>
  Lines 41-44:
  \<^verbatim>\<open>
  latest_rates = {}
  for i, currency in enumerate(currencies):
      if i < len(latest_rates_array) and latest_rates_array[i] is not None:
          latest_rates[currency] = latest_rates_array[i]
  \<close>
  \<open>and\<close> evaluates its right operand only when the left one is true.
\<close>

fun latest_rates_loop ::
  "(nat \<times> string) list \<Rightarrow> 'f row \<Rightarrow> (string, 'f json) dict \<Rightarrow> py_exception + (string, 'f json) dict" where
  "latest_rates_loop [] latest_rates_array latest_rates = Inr latest_rates"
| "latest_rates_loop ((i, currency) # rest) latest_rates_array latest_rates =
     (if i < length latest_rates_array then
        (case py_index latest_rates_array i of
           Inl e \<Rightarrow> Inl e
         | Inr v \<Rightarrow>
             if v \<noteq> JNull
             then latest_rates_loop rest latest_rates_array (dict_set latest_rates currency v)
             else latest_rates_loop rest latest_rates_array latest_rates)
      else latest_rates_loop rest latest_rates_array latest_rates)"

text \<open>Lines 35-53: the latest snapshot.\<close>

definition bootstrap_latest_data :: "'f source_data \<Rightarrow> string \<Rightarrow> py_exception + 'f latest_doc" where
  "bootstrap_latest_data src now_iso =
     (case py_max (dict_keys (src_data src)) of
        Inl e \<Rightarrow> Inl e
      | Inr latest_year \<Rightarrow>
          (case dict_get (src_data src) latest_year of
             None \<Rightarrow> Inl KeyError
           | Some year_data \<Rightarrow>
               (case py_max (dict_keys year_data) of
                  Inl e \<Rightarrow> Inl e
                | Inr latest_date \<Rightarrow>
                    (case dict_get year_data latest_date of
                       None \<Rightarrow> Inl KeyError
                     | Some latest_rates_array \<Rightarrow>
                         (case latest_rates_loop (enumerate 0 (src_currencies src))
                                 latest_rates_array [] of
                            Inl e \<Rightarrow> Inl e
                          | Inr latest_rates \<Rightarrow>
                              Inr \<lparr>ld_date = latest_date, ld_base_currency = ''EUR'',
                                   ld_rates = latest_rates, ld_last_updated = now_iso\<rparr>)))))"

text \<open>Lines 65-77: the metadata, for the \<open>latest_date\<close> found above.\<close>

definition bootstrap_metadata ::
  "'f source_data \<Rightarrow> string \<Rightarrow> string \<Rightarrow> 'f \<Rightarrow> 'f \<Rightarrow> 'f metadata_doc" where
  "bootstrap_metadata src latest_date now_iso full_data_mb latest_kb =
     \<lparr>md_base_currency = ''EUR'',
      md_supported_currencies = [''EUR''] @ src_currencies src,
      md_total_currencies = int (length (src_currencies src)) + 1,
      md_data_source = ''European Central Bank via exchangerate-api.com'',
      md_last_updated = now_iso,
      md_total_records = src_total_records src,
      md_latest_date = latest_date,
      md_date_range = None,
      md_full_data_mb = full_data_mb,
      md_latest_kb = latest_kb\<rparr>"

section \<open>Dictionaries: basic facts\<close>

lemma dict_get_set: "dict_get (dict_set d k v) k' = (if k' = k then Some v else dict_get d k')"
  by (induction d) auto

lemma dict_set_twice: "dict_set (dict_set d k v) k w = dict_set d k w"
  by (induction d) auto

lemma dict_keys_set:
  "map fst (dict_set d k v) = (if k \<in> set (map fst d) then map fst d else map fst d @ [k])"
  by (induction d) (auto simp: rev_image_eqI)

lemma dict_get_None_iff: "dict_get d k = None \<longleftrightarrow> k \<notin> set (map fst d)"
  by (induction d) (auto split: if_splits)

lemma wf_dict_set: "wf_dict d \<Longrightarrow> wf_dict (dict_set d k v)"
  by (simp add: wf_dict_def dict_keys_set)

lemma length_dict_set:
  "length (dict_set d k v) = (if k \<in> set (map fst d) then length d else Suc (length d))"
  by (induction d) (auto simp: rev_image_eqI)

lemma rates_array_fold:
  "fold (\<lambda>currency acc. acc @ [get_default r currency JNull]) ts acc0
     = acc0 @ map (\<lambda>currency. get_default r currency JNull) ts"
  by (induction ts arbitrary: acc0) simp_all

lemma rates_array_list: "rates_array targets r = rates_list targets r"
  by (simp add: rates_array_def rates_list_def rates_array_fold)

lemma dict_set_same: "dict_get d k = Some v \<Longrightarrow> dict_set d k v = d"
  by (induction d) (auto split: if_splits)

lemma dict_get_update3:
  "dict_get (dict_update d [(a, x), (b, y), (c, z)]) k =
     (if k = c then Some z else if k = b then Some y else if k = a then Some x else dict_get d k)"
  by (simp add: dict_update_def dict_get_set)

lemma dict_get_update2:
  "dict_get (dict_update d [(a, x), (b, y)]) k =
     (if k = b then Some y else if k = a then Some x else dict_get d k)"
  by (simp add: dict_update_def dict_get_set)

subsection \<open>Storing a row\<close>

lemma dict_get_ensure_year:
  "dict_get (ensure_year years y) y' =
     (if y' = y then Some (get_default years y []) else dict_get years y')"
  by (auto simp: ensure_year_def dict_contains_def dict_get_set get_default_def)

lemma store_row_eq:
  "store_row years y k row =
     dict_set (ensure_year years y) y (dict_set (get_default years y []) k row)"
  by (simp add: store_row_def dict_get_ensure_year Let_def)

lemma dict_get_store_row:
  "dict_get (store_row years y k row) y' =
     (if y' = y then Some (dict_set (get_default years y []) k row) else dict_get years y')"
  by (simp add: store_row_eq dict_get_set dict_get_ensure_year)

lemma lookup_store_row:
  "lookup_row (store_row years y k row) y' k' =
     (if y' = y \<and> k' = k then Some row else lookup_row years y' k')"
  by (auto simp: lookup_row_def dict_get_store_row dict_get_set get_default_def
        split: option.splits)

lemma ensure_year_dict_set: "ensure_year (dict_set years y b) y = dict_set years y b"
  by (simp add: ensure_year_def dict_contains_def dict_get_set)

lemma store_row_twice:
  "store_row (store_row years y k row) y k row' = store_row years y k row'"
proof -
  let ?E = "ensure_year years y"
  let ?B = "dict_set (get_default years y []) k row"
  have S: "store_row years y k row = dict_set ?E y ?B"
    by (rule store_row_eq)
  have "store_row (dict_set ?E y ?B) y k row'
          = dict_set (dict_set ?E y ?B) y (dict_set ?B k row')"
    by (simp add: store_row_eq ensure_year_dict_set get_default_def dict_get_set)
  also have "\<dots> = dict_set ?E y (dict_set (get_default years y []) k row')"
    by (simp add: dict_set_twice)
  also have "\<dots> = store_row years y k row'"
    by (simp add: store_row_eq)
  finally show ?thesis
    by (simp add: S)
qed

lemma dict_set_key_set: "fst ` set (dict_set d k v) = insert k (fst ` set d)"
proof -
  have "set (map fst (dict_set d k v)) = insert k (set (map fst d))"
    unfolding dict_keys_set by auto
  then show ?thesis
    by simp
qed

lemma keys_store_row:
  "dict_keys (store_row years y k row) =
     (if y \<in> set (dict_keys years) then dict_keys years else dict_keys years @ [y])"
  by (simp add: store_row_eq dict_keys_def dict_keys_set ensure_year_def dict_contains_def
        dict_get_None_iff dict_set_key_set)

text \<open>A year that a merge has touched holds at least one day.\<close>

lemma store_row_bucket_nonempty:
  "\<exists>year_data. dict_get (store_row years y k row) y = Some year_data \<and> year_data \<noteq> []"
proof -
  have "dict_set b k row \<noteq> []" for b :: "'a bucket"
    by (cases b) (auto split: if_splits)
  then show ?thesis
    by (simp add: dict_get_store_row)
qed

subsection \<open>Counting the records\<close>

lemma count_records_wf:
  "wf_years years \<Longrightarrow> count_records years = int (day_keys_total years)"
proof -
  have "wf_years years \<Longrightarrow>
          sum_list (map dict_len (dict_values years)) = day_keys_total years"
  proof (induction years)
    case Nil
    then show ?case
      by (simp add: day_keys_total_def dict_keys_def dict_values_def)
  next
    case (Cons p years)
    obtain a b where p: "p = (a, b)"
      by (cases p)
    from Cons.prems p have fresh: "a \<notin> set (map fst years)" and wfb: "wf_dict b"
      and wfr: "wf_years years"
      by (simp_all add: wf_years_def wf_dict_def dict_values_def)
    have same: "\<And>y. y \<in> set (map fst years) \<Longrightarrow>
        get_default ((a, b) # years) y [] = get_default years y []"
      using fresh by (auto simp: get_default_def)
    have "day_keys_total ((a, b) # years)
            = card (set (dict_keys b))
              + (\<Sum>y \<in> set (map fst years).
                   card (set (dict_keys (get_default ((a, b) # years) y []))))"
      using fresh by (simp add: day_keys_total_def dict_keys_def get_default_def)
    also have "\<dots> = card (set (dict_keys b)) + day_keys_total years"
      by (simp add: day_keys_total_def dict_keys_def same cong: sum.cong)
    also have "card (set (dict_keys b)) = dict_len b"
      using wfb distinct_card [of "map fst b"]
      by (simp add: wf_dict_def dict_keys_def dict_len_def)
    finally show ?case
      using Cons.IH [OF wfr] p by (simp add: dict_values_def)
  qed
  then show "wf_years years \<Longrightarrow> count_records years = int (day_keys_total years)"
    by (simp add: count_records_def)
qed

lemma list_all_values_set:
  "list_all P (map snd d) \<Longrightarrow> P v \<Longrightarrow> list_all P (map snd (dict_set d k v))"
  by (induction d) auto

lemma list_all_values_get:
  "list_all P (map snd d) \<Longrightarrow> dict_get d k = Some v \<Longrightarrow> P v"
  by (induction d) (auto split: if_splits)

lemma wf_years_store_row: "wf_years years \<Longrightarrow> wf_years (store_row years y k row)"
proof -
  assume wf: "wf_years years"
  have b: "wf_dict (get_default years y [])"
  proof (cases "dict_get years y")
    case None
    then show ?thesis
      by (simp add: get_default_def wf_dict_def)
  next
    case (Some b)
    with wf list_all_values_get [of wf_dict years y b] show ?thesis
      by (simp add: get_default_def wf_years_def dict_values_def)
  qed
  have e: "wf_years (ensure_year years y)"
    using wf
    by (simp add: ensure_year_def wf_years_def wf_dict_set dict_values_def
          list_all_values_set wf_dict_def [of "[]"])
  show ?thesis
    using e b
    by (simp add: store_row_eq wf_years_def wf_dict_set dict_values_def list_all_values_set)
qed

section \<open>The merge\<close>

text \<open>
  C2. After a merge the \<open>total_records\<close> entry of the dataset's metadata is the count
  taken from the history as it is after the merge, whatever the entry held before; and
  when the history is made of dictionaries (no key twice), that count is the sum over
  the year-keys of the number of day-keys of the year. Both update scripts.
\<close>

theorem total_records_recomputed:
  "dict_get (metadata (ucd_merge T d cy t r ts)) ''total_records''
     = Some (JInt (count_records (rates_by_year (ucd_merge T d cy t r ts))))
   \<and> dict_get (uad_metadata (uad_merge T e cy t r ts)) ''total_records''
     = Some (JInt (count_records (uad_years (uad_merge T e cy t r ts))))
   \<and> (wf_years (rates_by_year d) \<longrightarrow>
        wf_years (rates_by_year (ucd_merge T d cy t r ts))
        \<and> count_records (rates_by_year (ucd_merge T d cy t r ts))
            = int (day_keys_total (rates_by_year (ucd_merge T d cy t r ts))))
   \<and> (wf_years (uad_years e) \<longrightarrow>
        wf_years (uad_years (uad_merge T e cy t r ts))
        \<and> count_records (uad_years (uad_merge T e cy t r ts))
            = int (day_keys_total (uad_years (uad_merge T e cy t r ts))))"
  by (simp add: ucd_merge_def uad_merge_def Let_def dict_get_update3 dict_get_update2
        wf_years_store_row count_records_wf)

theorem total_records_recomputed_witness:
  "wf_years (rates_by_year (ucd_new_structure [''USD'', ''GBP'', ''JPY''] ''2024-03-15T06:00:00''
       ''2024-03-15'' ''2024-03-15'' :: real ucd_data))
   \<and> wf_years (uad_years (uad_new_structure [''USD'', ''GBP'', ''JPY'']
       ''2024-03-15T06:00:00'' :: real uad_data))
   \<and> day_keys_total (rates_by_year (ucd_merge [''USD'', ''GBP'', ''JPY'']
        (ucd_new_structure [''USD'', ''GBP'', ''JPY''] ''2024-03-15T06:00:00''
           ''2024-03-15'' ''2024-03-15'' :: real ucd_data)
        ''2024'' ''2024-03-15'' [(''USD'', JFloat 1.08), (''GBP'', JFloat 0.86)]
        ''2024-03-15T06:00:01'')) = 1
   \<and> day_keys_total (uad_years (uad_merge [''USD'', ''GBP'', ''JPY'']
        (uad_new_structure [''USD'', ''GBP'', ''JPY''] ''2024-03-15T06:00:00'' :: real uad_data)
        ''2024'' ''2024-03-15'' [(''USD'', JFloat 1.08), (''GBP'', JFloat 0.86)]
        ''2024-03-15T06:00:01'')) = 1"
proof -
  let ?T = "[''USD'', ''GBP'', ''JPY'']"
  let ?r = "[(''USD'', JFloat (1.08 :: real)), (''GBP'', JFloat 0.86)]"
  let ?d = "ucd_new_structure ?T ''2024-03-15T06:00:00'' ''2024-03-15'' ''2024-03-15''
              :: real ucd_data"
  let ?e = "uad_new_structure ?T ''2024-03-15T06:00:00'' :: real uad_data"
  have wd: "wf_years (rates_by_year ?d)" and we: "wf_years (uad_years ?e)"
    by (simp_all add: ucd_new_structure_def uad_new_structure_def wf_years_def wf_dict_def
          dict_values_def)
  have cd: "count_records (rates_by_year
              (ucd_merge ?T ?d ''2024'' ''2024-03-15'' ?r ''2024-03-15T06:00:01'')) = 1"
    by (simp add: ucd_merge_def ucd_new_structure_def Let_def store_row_eq ensure_year_def
          dict_contains_def get_default_def count_records_def dict_values_def dict_len_def)
  have ce: "count_records (uad_years
              (uad_merge ?T ?e ''2024'' ''2024-03-15'' ?r ''2024-03-15T06:00:01'')) = 1"
    by (simp add: uad_merge_def uad_new_structure_def Let_def store_row_eq ensure_year_def
          dict_contains_def get_default_def count_records_def dict_values_def dict_len_def)
  from total_records_recomputed
         [of ?T ?d "''2024''" "''2024-03-15''" ?r "''2024-03-15T06:00:01''" ?e]
       wd we cd ce
  show ?thesis
    by simp
qed

lemma length_rates_list: "length (rates_list T r) = length T"
  by (simp add: rates_list_def)

lemma nth_rates_list:
  "i < length T \<Longrightarrow> rates_list T r ! i = get_default r (T ! i) JNull"
  by (simp add: rates_list_def)

text \<open>
  C3. The row that the merge stores under the year and the day-key has one entry for
  each currency of the allow-list, in the order of the list: at position \<open>i\<close> the
  fetched rate of the \<open>i\<close>-th currency, or \<open>None\<close> when the fetch has no rate for it.
  This holds for every fetched mapping, a subset of the allow-list or not. Both update
  scripts.
\<close>

theorem merged_row_aligned:
  "lookup_row (rates_by_year (ucd_merge T d cy t r ts)) cy (drop 5 t) = Some (rates_array T r)
   \<and> lookup_row (uad_years (uad_merge T e cy t r ts)) cy t = Some (rates_list T r)
   \<and> length (rates_array T r) = length T
   \<and> length (rates_list T r) = length T
   \<and> (\<forall>i < length T.
         rates_array T r ! i = (case dict_get r (T ! i) of Some v \<Rightarrow> v | None \<Rightarrow> JNull)
         \<and> rates_list T r ! i = (case dict_get r (T ! i) of Some v \<Rightarrow> v | None \<Rightarrow> JNull))"
  by (simp add: ucd_merge_def uad_merge_def Let_def lookup_store_row rates_array_list
        length_rates_list nth_rates_list get_default_def)

theorem merged_row_aligned_witness:
  "(2 :: nat) < length [''USD'', ''GBP'', ''JPY'']
   \<and> rates_array [''USD'', ''GBP'', ''JPY'']
        [(''USD'', JFloat (1.08 :: real)), (''GBP'', JFloat 0.86)] ! 2 = JNull
   \<and> (1 :: nat) < length [''USD'', ''GBP'', ''JPY'']
   \<and> rates_list [''USD'', ''GBP'', ''JPY'']
        [(''USD'', JFloat (1.08 :: real)), (''GBP'', JFloat 0.86)] ! 1 = JFloat 0.86"
  using merged_row_aligned
          [of "[''USD'', ''GBP'', ''JPY'']"
              "ucd_new_structure [''USD'', ''GBP'', ''JPY''] ''2024-03-15T06:00:00''
                 ''2024-03-15'' ''2024-03-15''"
              "''2024''" "''2024-03-15''"
              "[(''USD'', JFloat (1.08 :: real)), (''GBP'', JFloat 0.86)]"
              "''2024-03-15T06:00:01''"
              "uad_new_structure [''USD'', ''GBP'', ''JPY''] ''2024-03-15T06:00:00''"]
  by simp

text \<open>
  C1, as the scripts have it. A second merge with the same date and the same rates
  gives the dataset of the first merge with one entry changed: \<open>last_updated\<close>, which
  holds the clock reading of the second merge. The history (each row in its slot, no
  entry added) and \<open>total_records\<close> are those of the first merge; when the two clock
  readings agree, so is the whole dataset. Both update scripts.
\<close>

theorem merge_again_changes_stamp_only:
  "ucd_merge T (ucd_merge T d cy t r ts1) cy t r ts2
     = (ucd_merge T d cy t r ts1)
         \<lparr>metadata := dict_set (metadata (ucd_merge T d cy t r ts1)) ''last_updated'' (JStr ts2)\<rparr>
   \<and> uad_merge T (uad_merge T e cy t r ts1) cy t r ts2
     = (uad_merge T e cy t r ts1)
         \<lparr>uad_metadata :=
            dict_set (uad_metadata (uad_merge T e cy t r ts1)) ''last_updated'' (JStr ts2)\<rparr>
   \<and> rates_by_year (ucd_merge T (ucd_merge T d cy t r ts1) cy t r ts2)
     = rates_by_year (ucd_merge T d cy t r ts1)
   \<and> uad_years (uad_merge T (uad_merge T e cy t r ts1) cy t r ts2)
     = uad_years (uad_merge T e cy t r ts1)
   \<and> dict_get (metadata (ucd_merge T (ucd_merge T d cy t r ts1) cy t r ts2)) ''total_records''
     = dict_get (metadata (ucd_merge T d cy t r ts1)) ''total_records''
   \<and> dict_get (uad_metadata (uad_merge T (uad_merge T e cy t r ts1) cy t r ts2)) ''total_records''
     = dict_get (uad_metadata (uad_merge T e cy t r ts1)) ''total_records''
   \<and> ucd_merge T (ucd_merge T d cy t r ts1) cy t r ts1 = ucd_merge T d cy t r ts1
   \<and> uad_merge T (uad_merge T e cy t r ts1) cy t r ts1 = uad_merge T e cy t r ts1"
proof -
  let ?Y = "store_row (rates_by_year d) cy (drop 5 t) (rates_array T r)"
  let ?Z = "store_row (uad_years e) cy t (rates_list T r)"
  have a: "dict_update (dict_update m
               [(''last_updated'', JStr ts1), (''latest_date'', JStr t), (''total_records'', n)])
             [(''last_updated'', JStr ts'), (''latest_date'', JStr t), (''total_records'', n)]
           = dict_set (dict_update m
               [(''last_updated'', JStr ts1), (''latest_date'', JStr t), (''total_records'', n)])
               ''last_updated'' (JStr ts')"
    for m :: "(string, 'a json) dict" and n ts'
    by (simp add: dict_update_def dict_set_same dict_get_set)
  have b: "dict_update (dict_update m [(''last_updated'', JStr ts1), (''total_records'', n)])
             [(''last_updated'', JStr ts'), (''total_records'', n)]
           = dict_set (dict_update m [(''last_updated'', JStr ts1), (''total_records'', n)])
               ''last_updated'' (JStr ts')"
    for m :: "(string, 'a json) dict" and n ts'
    by (simp add: dict_update_def dict_set_same dict_get_set)
  have c: "dict_set (dict_update m
               [(''last_updated'', JStr ts1), (''latest_date'', JStr t), (''total_records'', n)])
               ''last_updated'' (JStr ts1)
           = dict_update m
               [(''last_updated'', JStr ts1), (''latest_date'', JStr t), (''total_records'', n)]"
    for m :: "(string, 'a json) dict" and n
    by (simp add: dict_update_def dict_set_same dict_get_set)
  have c': "dict_set (dict_update m [(''last_updated'', JStr ts1), (''total_records'', n)])
               ''last_updated'' (JStr ts1)
           = dict_update m [(''last_updated'', JStr ts1), (''total_records'', n)]"
    for m :: "(string, 'a json) dict" and n
    by (simp add: dict_update_def dict_set_same dict_get_set)
  have u: "ucd_merge T (ucd_merge T d cy t r ts1) cy t r ts'
     = (ucd_merge T d cy t r ts1)
         \<lparr>metadata := dict_set (metadata (ucd_merge T d cy t r ts1)) ''last_updated'' (JStr ts')\<rparr>"
    for ts'
    by (simp add: ucd_merge_def Let_def store_row_twice a)
  have v: "uad_merge T (uad_merge T e cy t r ts1) cy t r ts'
     = (uad_merge T e cy t r ts1)
         \<lparr>uad_metadata :=
            dict_set (uad_metadata (uad_merge T e cy t r ts1)) ''last_updated'' (JStr ts')\<rparr>"
    for ts'
    by (simp add: uad_merge_def Let_def store_row_twice b)
  have u1: "ucd_merge T (ucd_merge T d cy t r ts1) cy t r ts1 = ucd_merge T d cy t r ts1"
    unfolding u by (simp add: ucd_merge_def Let_def c)
  have v1: "uad_merge T (uad_merge T e cy t r ts1) cy t r ts1 = uad_merge T e cy t r ts1"
    unfolding v by (simp add: uad_merge_def Let_def c')
  show ?thesis
    unfolding u v
    using u1 v1 unfolding u v
    by (simp add: dict_get_set)
qed

text \<open>
  C1 as stated fails: the second merge reads the clock again, so the two datasets
  differ in \<open>last_updated\<close> whenever the clock has moved between the two runs.
\<close>

theorem merge_twice_not_identical:
  "ucd_merge [''USD'', ''GBP'', ''JPY'']
     (ucd_merge [''USD'', ''GBP'', ''JPY'']
        (ucd_new_structure [''USD'', ''GBP'', ''JPY''] ''2024-03-15T06:00:00''
           ''2024-03-15'' ''2024-03-15'')
        ''2024'' ''2024-03-15'' [(''USD'', JFloat (1.08 :: real)), (''GBP'', JFloat 0.86)]
        ''2024-03-15T06:00:01'')
     ''2024'' ''2024-03-15'' [(''USD'', JFloat 1.08), (''GBP'', JFloat 0.86)]
     ''2024-03-15T18:00:00''
   \<noteq> ucd_merge [''USD'', ''GBP'', ''JPY'']
        (ucd_new_structure [''USD'', ''GBP'', ''JPY''] ''2024-03-15T06:00:00''
           ''2024-03-15'' ''2024-03-15'')
        ''2024'' ''2024-03-15'' [(''USD'', JFloat 1.08), (''GBP'', JFloat 0.86)]
        ''2024-03-15T06:00:01''"
  (is "?m2 \<noteq> ?m1")
proof
  assume "?m2 = ?m1"
  then have "dict_get (metadata ?m2) ''last_updated'' = dict_get (metadata ?m1) ''last_updated''"
    by (rule arg_cong)
  then show False
    by (simp add: ucd_merge_def Let_def dict_get_update3)
qed


text \<open>
  C9. A merge leaves every other year bucket as it was, and in the year of the merge
  every row under another day-key; no year-key is added but the year of the merge. In
  the metadata only \<open>last_updated\<close>, \<open>latest_date\<close> and \<open>total_records\<close> are assigned
  (\<open>update_and_deploy.py\<close> does not assign \<open>latest_date\<close>), so the currency list and
  the base currency stay, as does the \<open>currencies\<close> entry of the dataset. Both update
  scripts.
\<close>

theorem merge_frame:
  "(y \<noteq> cy \<longrightarrow>
      dict_get (rates_by_year (ucd_merge T d cy t r ts)) y = dict_get (rates_by_year d) y)
   \<and> ((y, k) \<noteq> (cy, drop 5 t) \<longrightarrow>
      lookup_row (rates_by_year (ucd_merge T d cy t r ts)) y k = lookup_row (rates_by_year d) y k)
   \<and> dict_keys (rates_by_year (ucd_merge T d cy t r ts))
       = (if cy \<in> set (dict_keys (rates_by_year d)) then dict_keys (rates_by_year d)
          else dict_keys (rates_by_year d) @ [cy])
   \<and> (key \<notin> {''last_updated'', ''latest_date'', ''total_records''} \<longrightarrow>
      dict_get (metadata (ucd_merge T d cy t r ts)) key = dict_get (metadata d) key)
   \<and> dict_get (metadata (ucd_merge T d cy t r ts)) ''currencies''
       = dict_get (metadata d) ''currencies''
   \<and> dict_get (metadata (ucd_merge T d cy t r ts)) ''base_currency''
       = dict_get (metadata d) ''base_currency''
   \<and> currencies (ucd_merge T d cy t r ts) = currencies d
   \<and> (y \<noteq> cy \<longrightarrow>
      dict_get (uad_years (uad_merge T e cy t r ts)) y = dict_get (uad_years e) y)
   \<and> ((y, k) \<noteq> (cy, t) \<longrightarrow>
      lookup_row (uad_years (uad_merge T e cy t r ts)) y k = lookup_row (uad_years e) y k)
   \<and> dict_keys (uad_years (uad_merge T e cy t r ts))
       = (if cy \<in> set (dict_keys (uad_years e)) then dict_keys (uad_years e)
          else dict_keys (uad_years e) @ [cy])
   \<and> (key \<notin> {''last_updated'', ''total_records''} \<longrightarrow>
      dict_get (uad_metadata (uad_merge T e cy t r ts)) key = dict_get (uad_metadata e) key)
   \<and> dict_get (uad_metadata (uad_merge T e cy t r ts)) ''currencies''
       = dict_get (uad_metadata e) ''currencies''
   \<and> dict_get (uad_metadata (uad_merge T e cy t r ts)) ''base_currency''
       = dict_get (uad_metadata e) ''base_currency''"
proof -
  have 1: "rates_by_year (ucd_merge T d cy t r ts)
             = store_row (rates_by_year d) cy (drop 5 t) (rates_array T r)"
    and 2: "uad_years (uad_merge T e cy t r ts) = store_row (uad_years e) cy t (rates_list T r)"
    and 3: "currencies (ucd_merge T d cy t r ts) = currencies d"
    by (simp_all add: ucd_merge_def uad_merge_def Let_def)
  have 4: "dict_get (metadata (ucd_merge T d cy t r ts)) q
             = (if q = ''total_records''
                then Some (JInt (count_records (rates_by_year (ucd_merge T d cy t r ts))))
                else if q = ''latest_date'' then Some (JStr t)
                else if q = ''last_updated'' then Some (JStr ts)
                else dict_get (metadata d) q)" for q
    by (simp add: ucd_merge_def Let_def dict_get_update3)
  have 5: "dict_get (uad_metadata (uad_merge T e cy t r ts)) q
             = (if q = ''total_records''
                then Some (JInt (count_records (uad_years (uad_merge T e cy t r ts))))
                else if q = ''last_updated'' then Some (JStr ts)
                else dict_get (uad_metadata e) q)" for q
    by (simp add: uad_merge_def Let_def dict_get_update2)
  show ?thesis
    unfolding 1 2 3 4 5
    by (simp add: dict_get_store_row lookup_store_row keys_store_row)
qed

theorem merge_frame_witness:
  "''2023'' \<noteq> ''2024''
   \<and> dict_get (rates_by_year (ucd_merge [''USD'', ''GBP'']
         \<lparr>metadata = [(''base_currency'', JStr ''EUR''), (''total_records'', JInt 2)],
          currencies = None,
          rates_by_year = [(''2023'', [(''12-29'', [JFloat (1.1 :: real), JFloat 0.87])]),
                           (''2024'', [(''03-14'', [JFloat 1.09, JNull])])]\<rparr>
         ''2024'' ''2024-03-15'' [(''USD'', JFloat 1.08)] ''2024-03-15T06:00:01'')) ''2023''
       = Some [(''12-29'', [JFloat 1.1, JFloat 0.87])]
   \<and> (''2024'', ''03-14'') \<noteq> (''2024'', drop 5 ''2024-03-15'')
   \<and> lookup_row (rates_by_year (ucd_merge [''USD'', ''GBP'']
         \<lparr>metadata = [(''base_currency'', JStr ''EUR''), (''total_records'', JInt 2)],
          currencies = None,
          rates_by_year = [(''2023'', [(''12-29'', [JFloat (1.1 :: real), JFloat 0.87])]),
                           (''2024'', [(''03-14'', [JFloat 1.09, JNull])])]\<rparr>
         ''2024'' ''2024-03-15'' [(''USD'', JFloat 1.08)] ''2024-03-15T06:00:01''))
         ''2024'' ''03-14''
       = Some [JFloat 1.09, JNull]
   \<and> ''base_currency'' \<notin> {''last_updated'', ''latest_date'', ''total_records''}"
proof -
  let ?d = "\<lparr>metadata = [(''base_currency'', JStr ''EUR''), (''total_records'', JInt 2)],
          currencies = None,
          rates_by_year = [(''2023'', [(''12-29'', [JFloat (1.1 :: real), JFloat 0.87])]),
                           (''2024'', [(''03-14'', [JFloat 1.09, JNull])])]\<rparr>"
  have a: "dict_get (rates_by_year ?d) ''2023'' = Some [(''12-29'', [JFloat 1.1, JFloat 0.87])]"
    and b: "lookup_row (rates_by_year ?d) ''2024'' ''03-14'' = Some [JFloat 1.09, JNull]"
    by (simp_all add: lookup_row_def)
  from merge_frame [of "''2023''" "''2024''" "[''USD'', ''GBP'']" ?d "''2024-03-15''"
         "[(''USD'', JFloat 1.08)]" "''2024-03-15T06:00:01''" "''03-14''" "''base_currency''"
         "uad_new_structure [] []"]
       merge_frame [of "''2024''" "''2024''" "[''USD'', ''GBP'']" ?d "''2024-03-15''"
         "[(''USD'', JFloat 1.08)]" "''2024-03-15T06:00:01''" "''03-14''" "''base_currency''"
         "uad_new_structure [] []"]
  show ?thesis
    unfolding a b by simp
qed


subsection \<open>A successful run\<close>

lemma ucd_metadata_doc_merged:
  "ucd_metadata_doc T (ucd_merge T d cy t r ts) today now a b =
     Inr \<lparr>md_base_currency = ''EUR'',
          md_supported_currencies = ''EUR'' # T,
          md_total_currencies = int (length T) + 1,
          md_data_source = ''European Central Bank via exchangerate-api.com'',
          md_last_updated = now,
          md_total_records = JInt (count_records (rates_by_year (ucd_merge T d cy t r ts))),
          md_latest_date = today,
          md_date_range =
            Some (get_default (metadata (ucd_merge T d cy t r ts)) ''earliest_date'' (JStr today),
                  today),
          md_full_data_mb = a,
          md_latest_kb = b\<rparr>"
proof -
  have "dict_get (metadata (ucd_merge T d cy t r ts)) ''total_records''
          = Some (JInt (count_records (rates_by_year (ucd_merge T d cy t r ts))))"
    by (simp add: ucd_merge_def Let_def dict_get_update3)
  then show ?thesis
    by (simp add: ucd_metadata_doc_def)
qed

lemma uad_metadata_doc_merged:
  "uad_metadata_doc T (uad_merge T e cy t r ts) today now a b =
     Inr \<lparr>md_base_currency = ''EUR'',
          md_supported_currencies = ''EUR'' # T,
          md_total_currencies = int (length T) + 1,
          md_data_source = ''European Central Bank via exchangerate-api.com'',
          md_last_updated = now,
          md_total_records = JInt (count_records (uad_years (uad_merge T e cy t r ts))),
          md_latest_date = today,
          md_date_range = None,
          md_full_data_mb = a,
          md_latest_kb = b\<rparr>"
proof -
  have "dict_get (uad_metadata (uad_merge T e cy t r ts)) ''total_records''
          = Some (JInt (count_records (uad_years (uad_merge T e cy t r ts))))"
    by (simp add: uad_merge_def Let_def dict_get_update2)
  then show ?thesis
    by (simp add: uad_metadata_doc_def)
qed

lemma update_currency_data_success:
  assumes "ucd_load_existing_data T clk files = Inr d0"
    and "fetch_latest_rates_from_api T api = Some r"
    and "r \<noteq> []"
  shows "exit_code (update_currency_data T clk smb skb api files) = 0"
    and "written (update_currency_data T clk smb skb api files)
           = [''docs/currency_rates.json'', ''docs/latest.json'', ''docs/metadata.json'']"
    and "files_after (update_currency_data T clk smb skb api files) ''docs/currency_rates.json''
           = Some (UcdDataset (ucd_merge T d0 (clk_current_year clk) (clk_today clk) r
                     (clk_merge_stamp clk)))"
    and "files_after (update_currency_data T clk smb skb api files) ''docs/latest.json''
           = Some (Latest (latest_data (clk_today clk) r (clk_latest_stamp clk)))"
    and "\<exists>md. files_after (update_currency_data T clk smb skb api files) ''docs/metadata.json''
                 = Some (Metadata md)
             \<and> ucd_metadata_doc T
                 (ucd_merge T d0 (clk_current_year clk) (clk_today clk) r (clk_merge_stamp clk))
                 (clk_today clk) (clk_metadata_stamp clk)
                 (smb (UcdDataset (ucd_merge T d0 (clk_current_year clk) (clk_today clk) r
                     (clk_merge_stamp clk))))
                 (skb (Latest (latest_data (clk_today clk) r (clk_latest_stamp clk))))
               = Inr md"
  using assms
  by (simp_all add: update_currency_data_def Let_def ucd_metadata_doc_merged ucd_path_def)

lemma update_and_deploy_success:
  assumes "uad_load_existing_data T clk files = Inr d0"
    and "fetch_latest_rates_from_api T api = Some r"
    and "r \<noteq> []"
  shows "exit_code (update_and_deploy T clk smb skb api files) = 0"
    and "written (update_and_deploy T clk smb skb api files)
           = [''../docs/currency_rates.json'', ''../docs/latest.json'', ''../docs/metadata.json'']"
    and "files_after (update_and_deploy T clk smb skb api files) ''../docs/currency_rates.json''
           = Some (UadDataset (uad_merge T d0 (clk_current_year clk) (clk_today clk) r
                     (clk_merge_stamp clk)))"
    and "files_after (update_and_deploy T clk smb skb api files) ''../docs/latest.json''
           = Some (Latest (latest_data (clk_today clk) r (clk_latest_stamp clk)))"
    and "\<exists>md. files_after (update_and_deploy T clk smb skb api files) ''../docs/metadata.json''
                 = Some (Metadata md)
             \<and> uad_metadata_doc T
                 (uad_merge T d0 (clk_current_year clk) (clk_today clk) r (clk_merge_stamp clk))
                 (clk_today clk) (clk_metadata_stamp clk)
                 (smb (UadDataset (uad_merge T d0 (clk_current_year clk) (clk_today clk) r
                     (clk_merge_stamp clk))))
                 (skb (Latest (latest_data (clk_today clk) r (clk_latest_stamp clk))))
               = Inr md"
  using assms
  by (simp_all add: update_and_deploy_def Let_def uad_metadata_doc_merged uad_path_def)

text \<open>
  C4. The end-to-end scenario, run with \<open>update_currency_data.py\<close> and the allow-list
  \<open>[USD, GBP, JPY]\<close>: no file exists, the API answers 200 with the rates
  \<open>{USD: 1.08, GBP: 0.86}\<close>, and the clock reads 2024-03-15. The run writes a dataset
  whose history is \<open>{"2024": {"03-15": [1.08, 0.86, null]}}\<close> with \<open>total_records\<close> 1, and a
  latest snapshot with the date \<open>2024-03-15\<close> and the rates \<open>{USD: 1.08, GBP: 0.86}\<close>, in
  which \<open>JPY\<close> is absent; it ends with status 0.
\<close>

theorem end_to_end_first_run:
  "fetch_latest_rates_from_api [''USD'', ''GBP'', ''JPY'']
     (Response 200 (Some (JObj [(''base'', JStr ''EUR''),
        (''rates'', JObj [(''USD'', JFloat (1.08 :: real)), (''GBP'', JFloat 0.86)])])))
     = Some [(''USD'', JFloat 1.08), (''GBP'', JFloat 0.86)]
   \<and> rates_by_year (ucd_merge [''USD'', ''GBP'', ''JPY'']
        (ucd_new_structure [''USD'', ''GBP'', ''JPY''] ''2024-03-15T06:00:00''
           ''2024-03-15'' ''2024-03-15'')
        ''2024'' ''2024-03-15'' [(''USD'', JFloat (1.08 :: real)), (''GBP'', JFloat 0.86)]
        ''2024-03-15T06:00:01'')
     = [(''2024'', [(''03-15'', [JFloat 1.08, JFloat 0.86, JNull])])]
   \<and> dict_get (metadata (ucd_merge [''USD'', ''GBP'', ''JPY'']
        (ucd_new_structure [''USD'', ''GBP'', ''JPY''] ''2024-03-15T06:00:00''
           ''2024-03-15'' ''2024-03-15'')
        ''2024'' ''2024-03-15'' [(''USD'', JFloat (1.08 :: real)), (''GBP'', JFloat 0.86)]
        ''2024-03-15T06:00:01'')) ''total_records''
     = Some (JInt 1)
   \<and> files_after (update_currency_data [''USD'', ''GBP'', ''JPY'']
        \<lparr>clk_new_last_updated = ''2024-03-15T06:00:00'', clk_new_earliest_date = ''2024-03-15'',
         clk_new_latest_date = ''2024-03-15'', clk_today = ''2024-03-15'',
         clk_current_year = ''2024'', clk_merge_stamp = ''2024-03-15T06:00:01'',
         clk_latest_stamp = ''2024-03-15T06:00:02'', clk_metadata_stamp = ''2024-03-15T06:00:03''\<rparr>
        size_mb size_kb
        (Response 200 (Some (JObj [(''base'', JStr ''EUR''),
           (''rates'', JObj [(''USD'', JFloat (1.08 :: real)), (''GBP'', JFloat 0.86)])])))
        Map.empty) ''docs/currency_rates.json''
     = Some (UcdDataset (ucd_merge [''USD'', ''GBP'', ''JPY'']
        (ucd_new_structure [''USD'', ''GBP'', ''JPY''] ''2024-03-15T06:00:00''
           ''2024-03-15'' ''2024-03-15'')
        ''2024'' ''2024-03-15'' [(''USD'', JFloat 1.08), (''GBP'', JFloat 0.86)]
        ''2024-03-15T06:00:01''))
   \<and> files_after (update_currency_data [''USD'', ''GBP'', ''JPY'']
        \<lparr>clk_new_last_updated = ''2024-03-15T06:00:00'', clk_new_earliest_date = ''2024-03-15'',
         clk_new_latest_date = ''2024-03-15'', clk_today = ''2024-03-15'',
         clk_current_year = ''2024'', clk_merge_stamp = ''2024-03-15T06:00:01'',
         clk_latest_stamp = ''2024-03-15T06:00:02'', clk_metadata_stamp = ''2024-03-15T06:00:03''\<rparr>
        size_mb size_kb
        (Response 200 (Some (JObj [(''base'', JStr ''EUR''),
           (''rates'', JObj [(''USD'', JFloat (1.08 :: real)), (''GBP'', JFloat 0.86)])])))
        Map.empty) ''docs/latest.json''
     = Some (Latest \<lparr>ld_date = ''2024-03-15'', ld_base_currency = ''EUR'',
               ld_rates = [(''USD'', JFloat 1.08), (''GBP'', JFloat 0.86)],
               ld_last_updated = ''2024-03-15T06:00:02''\<rparr>)
   \<and> dict_get [(''USD'', JFloat (1.08 :: real)), (''GBP'', JFloat 0.86)] ''JPY'' = None
   \<and> exit_code (update_currency_data [''USD'', ''GBP'', ''JPY'']
        \<lparr>clk_new_last_updated = ''2024-03-15T06:00:00'', clk_new_earliest_date = ''2024-03-15'',
         clk_new_latest_date = ''2024-03-15'', clk_today = ''2024-03-15'',
         clk_current_year = ''2024'', clk_merge_stamp = ''2024-03-15T06:00:01'',
         clk_latest_stamp = ''2024-03-15T06:00:02'', clk_metadata_stamp = ''2024-03-15T06:00:03''\<rparr>
        size_mb size_kb
        (Response 200 (Some (JObj [(''base'', JStr ''EUR''),
           (''rates'', JObj [(''USD'', JFloat (1.08 :: real)), (''GBP'', JFloat 0.86)])])))
        Map.empty) = 0"
proof -
  let ?T = "[''USD'', ''GBP'', ''JPY'']"
  let ?r = "[(''USD'', JFloat (1.08 :: real)), (''GBP'', JFloat 0.86)]"
  let ?api = "Response 200 (Some (JObj [(''base'', JStr ''EUR''), (''rates'', JObj ?r)]))"
  let ?clk = "\<lparr>clk_new_last_updated = ''2024-03-15T06:00:00'',
         clk_new_earliest_date = ''2024-03-15'',
         clk_new_latest_date = ''2024-03-15'', clk_today = ''2024-03-15'',
         clk_current_year = ''2024'', clk_merge_stamp = ''2024-03-15T06:00:01'',
         clk_latest_stamp = ''2024-03-15T06:00:02'', clk_metadata_stamp = ''2024-03-15T06:00:03''\<rparr>"
  let ?d0 = "ucd_new_structure ?T ''2024-03-15T06:00:00'' ''2024-03-15'' ''2024-03-15''
               :: real ucd_data"
  let ?d1 = "ucd_merge ?T ?d0 ''2024'' ''2024-03-15'' ?r ''2024-03-15T06:00:01''"
  have fetch: "fetch_latest_rates_from_api ?T ?api = Some ?r"
    by (simp add: fetch_latest_rates_from_api_def fetch_try_def get_default_def
          dict_contains_def)
  have years: "rates_by_year ?d1 = [(''2024'', [(''03-15'', [JFloat 1.08, JFloat 0.86, JNull])])]"
    by (simp add: ucd_merge_def ucd_new_structure_def Let_def store_row_eq ensure_year_def
          dict_contains_def get_default_def rates_array_list rates_list_def)
  have total: "dict_get (metadata ?d1) ''total_records'' = Some (JInt 1)"
    using years
    by (simp add: ucd_merge_def Let_def dict_get_update3 count_records_def dict_values_def
          dict_len_def)
  have load: "ucd_load_existing_data ?T ?clk Map.empty = Inr ?d0"
    by (simp add: ucd_load_existing_data_def)
  have ne: "?r \<noteq> []"
    by simp
  have dataset: "files_after (update_currency_data ?T ?clk size_mb size_kb ?api Map.empty)
                   ''docs/currency_rates.json'' = Some (UcdDataset ?d1)"
    using update_currency_data_success(3) [OF load fetch ne, of size_mb size_kb]
    by simp
  have latest: "files_after (update_currency_data ?T ?clk size_mb size_kb ?api Map.empty)
                   ''docs/latest.json''
                 = Some (Latest \<lparr>ld_date = ''2024-03-15'', ld_base_currency = ''EUR'',
                     ld_rates = ?r, ld_last_updated = ''2024-03-15T06:00:02''\<rparr>)"
    using update_currency_data_success(4) [OF load fetch ne, of size_mb size_kb]
    by (simp add: latest_data_def)
  have jpy: "dict_get ?r ''JPY'' = None"
    by simp
  note status = update_currency_data_success(1) [OF load fetch ne, of size_mb size_kb]
  from fetch years total dataset latest jpy status show ?thesis
    by (intro conjI)
qed

text \<open>
  With the allow-list of the scripts the same fetch gives a row of 29 entries, the rates
  at the positions of \<open>GBP\<close> and \<open>USD\<close>.
\<close>

lemma row_for_target_currencies:
  "rates_array TARGET_CURRENCIES [(''USD'', JFloat (1.08 :: real)), (''GBP'', JFloat 0.86)]
     = [JNull, JNull, JNull, JNull, JNull, JFloat 0.86, JNull, JNull, JNull, JNull,
        JNull, JNull, JNull, JNull, JNull, JFloat 1.08, JNull, JNull, JNull, JNull,
        JNull, JNull, JNull, JNull, JNull, JNull, JNull, JNull, JNull]"
  by (simp add: rates_array_list rates_list_def TARGET_CURRENCIES_def get_default_def)

section \<open>The run\<close>

lemma update_currency_data_no_rates:
  "fetch_latest_rates_from_api T api = None \<or> fetch_latest_rates_from_api T api = Some []
   \<Longrightarrow> update_currency_data T clk smb skb api files
         = \<lparr>exit_code = 1, files_after = files, written = []\<rparr>"
  by (auto simp: update_currency_data_def split: sum.splits)

lemma update_and_deploy_no_rates:
  "fetch_latest_rates_from_api T api = None \<or> fetch_latest_rates_from_api T api = Some []
   \<Longrightarrow> update_and_deploy T clk smb skb api files
         = \<lparr>exit_code = 1, files_after = files, written = []\<rparr>"
  by (auto simp: update_and_deploy_def split: sum.splits)

text \<open>
  C5. When the fetch gives \<open>None\<close> or the empty mapping, a run of either update script
  leaves every file as it was, writes nothing and ends with status 1. When the existing
  dataset loads and the fetch gives a mapping that is not empty, the run writes the three
  files and ends with status 0.
\<close>

theorem no_rates_no_write:
  "((fetch_latest_rates_from_api T api = None \<or> fetch_latest_rates_from_api T api = Some [])
      \<longrightarrow> files_after (update_currency_data T clk smb skb api files) = files
          \<and> written (update_currency_data T clk smb skb api files) = []
          \<and> exit_code (update_currency_data T clk smb skb api files) \<noteq> 0
          \<and> files_after (update_and_deploy T clk smb skb api files) = files
          \<and> written (update_and_deploy T clk smb skb api files) = []
          \<and> exit_code (update_and_deploy T clk smb skb api files) \<noteq> 0)
   \<and> ((ucd_load_existing_data T clk files = Inr d0
        \<and> fetch_latest_rates_from_api T api = Some r \<and> r \<noteq> [])
      \<longrightarrow> exit_code (update_currency_data T clk smb skb api files) = 0
          \<and> written (update_currency_data T clk smb skb api files)
              = [''docs/currency_rates.json'', ''docs/latest.json'', ''docs/metadata.json''])
   \<and> ((uad_load_existing_data T clk files = Inr e0
        \<and> fetch_latest_rates_from_api T api = Some r \<and> r \<noteq> [])
      \<longrightarrow> exit_code (update_and_deploy T clk smb skb api files) = 0
          \<and> written (update_and_deploy T clk smb skb api files)
              = [''../docs/currency_rates.json'', ''../docs/latest.json'',
                 ''../docs/metadata.json''])"
  by (simp add: update_currency_data_no_rates update_and_deploy_no_rates
        update_currency_data_success(1,2) update_and_deploy_success(1,2))


theorem no_rates_no_write_witness:
  "fetch_latest_rates_from_api [''USD'', ''GBP'', ''JPY''] (GetRaises Timeout :: real api_outcome)
     = None
   \<and> files_after (update_currency_data [''USD'', ''GBP'', ''JPY'']
        \<lparr>clk_new_last_updated = ''2024-03-15T06:00:00'', clk_new_earliest_date = ''2024-03-15'',
         clk_new_latest_date = ''2024-03-15'', clk_today = ''2024-03-15'',
         clk_current_year = ''2024'', clk_merge_stamp = ''2024-03-15T06:00:01'',
         clk_latest_stamp = ''2024-03-15T06:00:02'', clk_metadata_stamp = ''2024-03-15T06:00:03''\<rparr>
        (\<lambda>c. 0) (\<lambda>c. 0) (GetRaises Timeout)
        [''docs/currency_rates.json'' \<mapsto> UcdDataset
           \<lparr>metadata = [(''total_records'', JInt 1)], currencies = None,
            rates_by_year = [(''2024'', [(''03-14'', [JFloat (1.09 :: real), JNull, JNull])])]\<rparr>])
     = [''docs/currency_rates.json'' \<mapsto> UcdDataset
           \<lparr>metadata = [(''total_records'', JInt 1)], currencies = None,
            rates_by_year = [(''2024'', [(''03-14'', [JFloat 1.09, JNull, JNull])])]\<rparr>]
   \<and> exit_code (update_currency_data [''USD'', ''GBP'', ''JPY'']
        \<lparr>clk_new_last_updated = ''2024-03-15T06:00:00'', clk_new_earliest_date = ''2024-03-15'',
         clk_new_latest_date = ''2024-03-15'', clk_today = ''2024-03-15'',
         clk_current_year = ''2024'', clk_merge_stamp = ''2024-03-15T06:00:01'',
         clk_latest_stamp = ''2024-03-15T06:00:02'', clk_metadata_stamp = ''2024-03-15T06:00:03''\<rparr>
        (\<lambda>c. 0) (\<lambda>c. 0) (GetRaises Timeout)
        [''docs/currency_rates.json'' \<mapsto> UcdDataset
           \<lparr>metadata = [(''total_records'', JInt 1)], currencies = None,
            rates_by_year = [(''2024'', [(''03-14'', [JFloat (1.09 :: real), JNull, JNull])])]\<rparr>])
     \<noteq> 0
   \<and> uad_load_existing_data [''USD'', ''GBP'', ''JPY'']
        \<lparr>clk_new_last_updated = ''2024-03-15T06:00:00'', clk_new_earliest_date = ''2024-03-15'',
         clk_new_latest_date = ''2024-03-15'', clk_today = ''2024-03-15'',
         clk_current_year = ''2024'', clk_merge_stamp = ''2024-03-15T06:00:01'',
         clk_latest_stamp = ''2024-03-15T06:00:02'', clk_metadata_stamp = ''2024-03-15T06:00:03''\<rparr>
        Map.empty
     = Inr (uad_new_structure [''USD'', ''GBP'', ''JPY''] ''2024-03-15T06:00:00'' :: real uad_data)
   \<and> fetch_latest_rates_from_api [''USD'', ''GBP'', ''JPY'']
        (Response 200 (Some (JObj [(''rates'', JObj [(''USD'', JFloat (1.08 :: real))])])))
     = Some [(''USD'', JFloat 1.08)]
   \<and> exit_code (update_and_deploy [''USD'', ''GBP'', ''JPY'']
        \<lparr>clk_new_last_updated = ''2024-03-15T06:00:00'', clk_new_earliest_date = ''2024-03-15'',
         clk_new_latest_date = ''2024-03-15'', clk_today = ''2024-03-15'',
         clk_current_year = ''2024'', clk_merge_stamp = ''2024-03-15T06:00:01'',
         clk_latest_stamp = ''2024-03-15T06:00:02'', clk_metadata_stamp = ''2024-03-15T06:00:03''\<rparr>
        (\<lambda>c. 0) (\<lambda>c. 0)
        (Response 200 (Some (JObj [(''rates'', JObj [(''USD'', JFloat (1.08 :: real))])])))
        Map.empty)
     = 0"
proof -
  let ?T = "[''USD'', ''GBP'', ''JPY'']"
  let ?clk = "\<lparr>clk_new_last_updated = ''2024-03-15T06:00:00'',
         clk_new_earliest_date = ''2024-03-15'',
         clk_new_latest_date = ''2024-03-15'', clk_today = ''2024-03-15'',
         clk_current_year = ''2024'', clk_merge_stamp = ''2024-03-15T06:00:01'',
         clk_latest_stamp = ''2024-03-15T06:00:02'', clk_metadata_stamp = ''2024-03-15T06:00:03''\<rparr>"
  let ?old = "\<lparr>metadata = [(''total_records'', JInt 1)], currencies = None,
            rates_by_year = [(''2024'', [(''03-14'', [JFloat (1.09 :: real), JNull, JNull])])]\<rparr>"
  let ?files = "[''docs/currency_rates.json'' \<mapsto> UcdDataset ?old]"
  let ?ok = "Response 200 (Some (JObj [(''rates'', JObj [(''USD'', JFloat (1.08 :: real))])]))"
  have none: "fetch_latest_rates_from_api ?T (GetRaises Timeout :: real api_outcome) = None"
    by (simp add: fetch_latest_rates_from_api_def fetch_try_def)
  have load: "uad_load_existing_data ?T ?clk Map.empty
                = Inr (uad_new_structure ?T ''2024-03-15T06:00:00'' :: real uad_data)"
    by (simp add: uad_load_existing_data_def)
  have some: "fetch_latest_rates_from_api ?T ?ok = Some [(''USD'', JFloat 1.08)]"
    by (simp add: fetch_latest_rates_from_api_def fetch_try_def get_default_def
          dict_contains_def)
  have ne: "[(''USD'', JFloat (1.08 :: real))] \<noteq> []"
    by simp
  from no_rates_no_write
         [of ?T "GetRaises Timeout" ?clk "\<lambda>c. 0" "\<lambda>c. 0" ?files ?old "[]"
             "uad_new_structure ?T ''2024-03-15T06:00:00''"]
       none
  have fail: "files_after (update_currency_data ?T ?clk (\<lambda>c. 0) (\<lambda>c. 0) (GetRaises Timeout) ?files)
                = ?files
              \<and> exit_code (update_currency_data ?T ?clk (\<lambda>c. 0) (\<lambda>c. 0) (GetRaises Timeout) ?files)
                \<noteq> 0"
    by blast
  from no_rates_no_write
         [of ?T ?ok ?clk "\<lambda>c. 0" "\<lambda>c. 0" Map.empty ?old "[(''USD'', JFloat 1.08)]"
             "uad_new_structure ?T ''2024-03-15T06:00:00''"]
       load some ne
  have ok: "exit_code (update_and_deploy ?T ?clk (\<lambda>c. 0) (\<lambda>c. 0) ?ok Map.empty) = 0"
    by blast
  from none fail load some ok show ?thesis
    by (intro conjI) blast+
qed


section \<open>The fetcher\<close>

text \<open>The comprehension over a dict: each target that is a key is assigned, in order.\<close>

lemma filter_rates_object:
  "filter_rates (JObj rates) ts acc
     = Inr (fold (\<lambda>c acc. case dict_get rates c of None \<Rightarrow> acc | Some v \<Rightarrow> dict_set acc c v)
              ts acc)"
  by (induction ts arbitrary: acc) (auto simp: dict_contains_def split: option.splits)

lemma dict_get_fold_pick:
  "dict_get (fold (\<lambda>c acc. case dict_get rates c of None \<Rightarrow> acc | Some v \<Rightarrow> dict_set acc c v)
               ts acc) k
     = (if k \<in> set ts \<and> dict_get rates k \<noteq> None then dict_get rates k else dict_get acc k)"
  by (induction ts arbitrary: acc) (auto simp: dict_get_set split: option.splits)

lemma wf_fold_pick:
  "wf_dict acc \<Longrightarrow>
   wf_dict (fold (\<lambda>c acc. case dict_get rates c of None \<Rightarrow> acc | Some v \<Rightarrow> dict_set acc c v)
              ts acc)"
  by (induction ts arbitrary: acc) (auto simp: wf_dict_set split: option.splits)

lemma keys_fold_pick:
  "distinct ts \<Longrightarrow> set ts \<inter> set (map fst acc) = {} \<Longrightarrow>
   map fst (fold (\<lambda>c acc. case dict_get rates c of None \<Rightarrow> acc | Some v \<Rightarrow> dict_set acc c v)
              ts acc)
     = map fst acc @ filter (\<lambda>c. dict_contains c rates) ts"
proof (induction ts arbitrary: acc)
  case Nil
  then show ?case
    by simp
next
  case (Cons c ts)
  show ?case
  proof (cases "dict_get rates c")
    case None
    with Cons show ?thesis
      by (simp add: dict_contains_def)
  next
    case (Some v)
    from Cons.prems have "set ts \<inter> set (map fst (dict_set acc c v)) = {}"
      by (auto simp: dict_set_key_set)
    with Cons.IH [of "dict_set acc c v"] Cons.prems Some show ?thesis
      by (simp add: dict_contains_def dict_keys_set)
  qed
qed


lemma filter_rates_no_match:
  "\<forall>c \<in> set ts. py_in c rates = Inr False \<Longrightarrow> filter_rates rates ts acc = Inr acc"
  by (induction ts arbitrary: acc) simp_all

lemma fetch_none_get: "fetch_latest_rates_from_api T (GetRaises e) = None"
  by (simp add: fetch_latest_rates_from_api_def fetch_try_def)

lemma fetch_none_status:
  "400 \<le> status \<and> status < 600 \<Longrightarrow> fetch_latest_rates_from_api T (Response status body) = None"
  by (simp add: fetch_latest_rates_from_api_def fetch_try_def)

lemma fetch_none_body: "fetch_latest_rates_from_api T (Response status None) = None"
  by (simp add: fetch_latest_rates_from_api_def fetch_try_def)

lemma fetch_none_shape:
  "(case data of JObj d \<Rightarrow> False | _ \<Rightarrow> True) \<Longrightarrow>
     fetch_latest_rates_from_api T (Response status (Some data)) = None"
  by (cases data) (simp_all add: fetch_latest_rates_from_api_def fetch_try_def)

lemma fetch_rates_object:
  assumes ok: "\<not> (400 \<le> status \<and> status < 600)"
    and r: "dict_get obj ''rates'' = Some (JObj rates)"
  shows "\<exists>m. fetch_latest_rates_from_api T (Response status (Some (JObj obj))) = Some m
           \<and> wf_dict m
           \<and> (\<forall>c. dict_get m c = (if c \<in> set T then dict_get rates c else None))
           \<and> (distinct T \<longrightarrow> dict_keys m = filter (\<lambda>c. dict_contains c rates) T)"
proof -
  let ?pick = "\<lambda>c acc. case dict_get rates c of None \<Rightarrow> acc | Some v \<Rightarrow> dict_set acc c v"
  have f: "fetch_latest_rates_from_api T (Response status (Some (JObj obj)))
             = Some (fold ?pick T [])"
    using ok r
    by (simp add: fetch_latest_rates_from_api_def fetch_try_def get_default_def
          filter_rates_object)
  have w: "wf_dict (fold ?pick T [])"
    by (rule wf_fold_pick) (simp add: wf_dict_def)
  have g: "\<forall>c. dict_get (fold ?pick T []) c = (if c \<in> set T then dict_get rates c else None)"
    by (auto simp: dict_get_fold_pick)
  have k: "distinct T \<longrightarrow> dict_keys (fold ?pick T []) = filter (\<lambda>c. dict_contains c rates) T"
    using keys_fold_pick [of T "[]" rates] by (simp add: dict_keys_def)
  from f w g k show ?thesis
    by blast
qed

text \<open>
  An object without a \<open>rates\<close> entry is not an error for the fetcher: the default \<open>{}\<close>
  of \<open>data.get('rates', {})\<close> gives the empty mapping. So does a \<open>rates\<close> entry that is a
  list or a string in which no currency of the allow-list occurs.
\<close>

lemma fetch_no_rates_field:
  assumes "\<not> (400 \<le> status \<and> status < 600)" and "dict_get obj ''rates'' = None"
  shows "fetch_latest_rates_from_api T (Response status (Some (JObj obj))) = Some []"
proof -
  have "filter_rates (JObj []) T acc = Inr acc" for acc :: "(string, 'a json) dict"
    by (rule filter_rates_no_match) (simp add: dict_contains_def)
  with assms show ?thesis
    by (simp add: fetch_latest_rates_from_api_def fetch_try_def get_default_def)
qed

lemma fetch_rates_list:
  assumes "\<not> (400 \<le> status \<and> status < 600)"
    and "dict_get obj ''rates'' = Some (JArr xs)" and "\<forall>c \<in> set T. JStr c \<notin> set xs"
  shows "fetch_latest_rates_from_api T (Response status (Some (JObj obj))) = Some []"
proof -
  have "filter_rates (JArr xs) T [] = Inr []"
    using assms(3) by (intro filter_rates_no_match) simp
  with assms(1,2) show ?thesis
    by (simp add: fetch_latest_rates_from_api_def fetch_try_def get_default_def)
qed

lemma fetch_rates_string:
  assumes "\<not> (400 \<le> status \<and> status < 600)"
    and "dict_get obj ''rates'' = Some (JStr s :: 'a json)" and "\<forall>c \<in> set T. \<not> is_substring c s"
  shows "fetch_latest_rates_from_api T (Response status (Some (JObj obj))) = Some []"
proof -
  have "filter_rates (JStr s) T acc = Inr acc" for acc :: "(string, 'a json) dict"
    using assms(3) by (intro filter_rates_no_match) simp
  with assms(1,2) show ?thesis
    by (simp add: fetch_latest_rates_from_api_def fetch_try_def get_default_def)
qed

text \<open>The fetcher with its prints.\<close>

lemma fetch_printing_quiet:
  assumes "\<forall>m. console m = None"
  shows "fetch_latest_rates_from_api_printing console T api
           = Inr (fetch_latest_rates_from_api T api)"
proof (cases "fetch_try T api")
  case (Inl e)
  with assms show ?thesis
    by (simp add: fetch_latest_rates_from_api_printing_def fetch_try_printing_def
          fetch_latest_rates_from_api_def)
next
  case (Inr m)
  with assms show ?thesis
    by (simp add: fetch_latest_rates_from_api_printing_def fetch_try_printing_def
          fetch_latest_rates_from_api_def)
qed

lemma fetch_printing_returns:
  assumes "\<forall>x. console (ErrorFetching x) = None"
  shows "\<exists>res. fetch_latest_rates_from_api_printing console T api = Inr res"
proof (cases "fetch_try_printing console T api")
  case (Inl e)
  with assms show ?thesis
    by (simp add: fetch_latest_rates_from_api_printing_def)
next
  case (Inr m)
  then show ?thesis
    by (simp add: fetch_latest_rates_from_api_printing_def)
qed

lemma fetch_printing_raises:
  "fetch_try_printing console T api = Inl x \<Longrightarrow> console (ErrorFetching x) = Some y \<Longrightarrow>
   fetch_latest_rates_from_api_printing console T api = Inl y"
  by (simp add: fetch_latest_rates_from_api_printing_def)

text \<open>
  C6, as the scripts have it. With every progress line printed, the fetcher returns
  what the \<open>try\<close> block computes, and \<open>None\<close> for each exception in it. It returns \<open>None\<close>
  when \<open>requests.get\<close> raises (a connection error, a timeout), when the status is an
  error status, and when the body is not JSON or is JSON but not an object. For an
  object whose \<open>rates\<close> entry is an object it returns a dictionary that holds, for each
  currency of the allow-list that is a key of \<open>rates\<close>, the value \<open>rates\<close> has for it, and
  nothing else, in the order of the allow-list. For an object without a \<open>rates\<close> entry,
  or whose \<open>rates\<close> entry is a list or a string in which no currency of the allow-list
  occurs, it returns the empty mapping, not \<open>None\<close>. No exception reaches the caller as
  long as the \<open>print\<close> of the handler returns; when the handler is entered and its
  \<open>print\<close> raises, that exception reaches the caller.
\<close>

theorem fetcher_results:
  "((\<forall>m. console m = None) \<longrightarrow>
      fetch_latest_rates_from_api_printing console T api
        = Inr (fetch_latest_rates_from_api T api))
   \<and> ((\<forall>x. console (ErrorFetching x) = None) \<longrightarrow>
      (\<exists>res. fetch_latest_rates_from_api_printing console T api = Inr res))
   \<and> (fetch_try_printing console T api = Inl x \<and> console (ErrorFetching x) = Some y \<longrightarrow>
      fetch_latest_rates_from_api_printing console T api = Inl y)
   \<and> fetch_latest_rates_from_api T (GetRaises e) = None
   \<and> (400 \<le> status \<and> status < 600 \<longrightarrow>
        fetch_latest_rates_from_api T (Response status body) = None)
   \<and> fetch_latest_rates_from_api T (Response status None) = None
   \<and> ((case data of JObj d \<Rightarrow> False | _ \<Rightarrow> True) \<longrightarrow>
        fetch_latest_rates_from_api T (Response status (Some data)) = None)
   \<and> (\<not> (400 \<le> status \<and> status < 600) \<and> dict_get obj ''rates'' = Some (JObj rates) \<longrightarrow>
        (\<exists>m. fetch_latest_rates_from_api T (Response status (Some (JObj obj))) = Some m
           \<and> wf_dict m
           \<and> (\<forall>c. dict_get m c = (if c \<in> set T then dict_get rates c else None))
           \<and> (distinct T \<longrightarrow> dict_keys m = filter (\<lambda>c. dict_contains c rates) T)))
   \<and> (\<not> (400 \<le> status \<and> status < 600) \<and> dict_get obj ''rates'' = None \<longrightarrow>
        fetch_latest_rates_from_api T (Response status (Some (JObj obj))) = Some [])
   \<and> (\<not> (400 \<le> status \<and> status < 600) \<and> dict_get obj ''rates'' = Some (JArr xs)
        \<and> (\<forall>c \<in> set T. JStr c \<notin> set xs) \<longrightarrow>
        fetch_latest_rates_from_api T (Response status (Some (JObj obj))) = Some [])
   \<and> (\<not> (400 \<le> status \<and> status < 600) \<and> dict_get obj ''rates'' = Some (JStr s)
        \<and> (\<forall>c \<in> set T. \<not> is_substring c s) \<longrightarrow>
        fetch_latest_rates_from_api T (Response status (Some (JObj obj))) = Some [])"
proof (intro conjI impI)
  show "fetch_latest_rates_from_api_printing console T api
          = Inr (fetch_latest_rates_from_api T api)" if "\<forall>m. console m = None"
    using that by (rule fetch_printing_quiet)
  show "\<exists>res. fetch_latest_rates_from_api_printing console T api = Inr res"
    if "\<forall>x. console (ErrorFetching x) = None"
    using that by (rule fetch_printing_returns)
  show "fetch_latest_rates_from_api_printing console T api = Inl y"
    if "fetch_try_printing console T api = Inl x \<and> console (ErrorFetching x) = Some y"
    using that fetch_printing_raises [of console T api x y] by simp
  show "fetch_latest_rates_from_api T (GetRaises e) = None"
    by (rule fetch_none_get)
  show "fetch_latest_rates_from_api T (Response status body) = None"
    if "400 \<le> status \<and> status < 600"
    using that by (rule fetch_none_status)
  show "fetch_latest_rates_from_api T (Response status None) = None"
    by (rule fetch_none_body)
  show "fetch_latest_rates_from_api T (Response status (Some data)) = None"
    if "case data of JObj d \<Rightarrow> False | _ \<Rightarrow> True"
    using that by (rule fetch_none_shape)
  show "\<exists>m. fetch_latest_rates_from_api T (Response status (Some (JObj obj))) = Some m
           \<and> wf_dict m
           \<and> (\<forall>c. dict_get m c = (if c \<in> set T then dict_get rates c else None))
           \<and> (distinct T \<longrightarrow> dict_keys m = filter (\<lambda>c. dict_contains c rates) T)"
    if "\<not> (400 \<le> status \<and> status < 600) \<and> dict_get obj ''rates'' = Some (JObj rates)"
    using that fetch_rates_object [of status obj rates T] by simp
  show "fetch_latest_rates_from_api T (Response status (Some (JObj obj))) = Some []"
    if "\<not> (400 \<le> status \<and> status < 600) \<and> dict_get obj ''rates'' = None"
    using that fetch_no_rates_field [of status obj T] by simp
  show "fetch_latest_rates_from_api T (Response status (Some (JObj obj))) = Some []"
    if "\<not> (400 \<le> status \<and> status < 600) \<and> dict_get obj ''rates'' = Some (JArr xs)
        \<and> (\<forall>c \<in> set T. JStr c \<notin> set xs)"
    using that fetch_rates_list [of status obj xs T] by simp
  show "fetch_latest_rates_from_api T (Response status (Some (JObj obj))) = Some []"
    if "\<not> (400 \<le> status \<and> status < 600) \<and> dict_get obj ''rates'' = Some (JStr s)
        \<and> (\<forall>c \<in> set T. \<not> is_substring c s)"
    using that fetch_rates_string [of status obj s T] by simp
qed

theorem fetcher_results_witness:
  "utf8_console Fetching = None
   \<and> fetch_latest_rates_from_api_printing utf8_console [''USD'', ''GBP'', ''JPY'']
        (Response 503 (Some (JStr ''Service Unavailable'')) :: real api_outcome) = Inr None
   \<and> (400 :: nat) \<le> 503 \<and> (503 :: nat) < 600
   \<and> (case (JArr [] :: real json) of JObj d \<Rightarrow> False | _ \<Rightarrow> True)
   \<and> fetch_latest_rates_from_api [''USD'', ''GBP'', ''JPY'']
        (Response 200 (Some (JArr [])) :: real api_outcome) = None
   \<and> \<not> ((400 :: nat) \<le> 200 \<and> (200 :: nat) < 600)
   \<and> distinct [''USD'', ''GBP'', ''JPY'']
   \<and> (\<exists>m. fetch_latest_rates_from_api [''USD'', ''GBP'', ''JPY'']
          (Response 200 (Some (JObj [(''base'', JStr ''EUR''),
             (''rates'', JObj [(''CHF'', JFloat (0.96 :: real)), (''GBP'', JFloat 0.86),
                              (''USD'', JFloat 1.08)])]))) = Some m
        \<and> dict_keys m = [''USD'', ''GBP'']
        \<and> dict_get m ''USD'' = Some (JFloat 1.08)
        \<and> dict_get m ''CHF'' = None)
   \<and> dict_get [(''result'', JStr ''error'')] ''rates'' = (None :: real json option)
   \<and> fetch_latest_rates_from_api [''USD'', ''GBP'', ''JPY'']
        (Response 200 (Some (JObj [(''result'', JStr ''error'')])) :: real api_outcome) = Some []
   \<and> JStr ''USD'' \<notin> set [JFloat (1.08 :: real), JFloat 0.86]
   \<and> fetch_latest_rates_from_api [''USD'', ''GBP'', ''JPY'']
        (Response 200 (Some (JObj [(''rates'', JArr [JFloat (1.08 :: real), JFloat 0.86])])))
       = Some []
   \<and> \<not> is_substring ''USD'' ''n/a''
   \<and> fetch_latest_rates_from_api [''USD'', ''GBP'', ''JPY'']
        (Response 200 (Some (JObj [(''rates'', JStr ''n/a'')])) :: real api_outcome) = Some []
   \<and> fetch_try_printing ascii_console [''USD'', ''GBP'', ''JPY'']
        (GetRaises Timeout :: real api_outcome) = Inl ValueError
   \<and> ascii_console (ErrorFetching ValueError) = Some ValueError
   \<and> fetch_latest_rates_from_api_printing ascii_console [''USD'', ''GBP'', ''JPY'']
        (GetRaises Timeout :: real api_outcome) = Inl ValueError"
proof -
  let ?T = "[''USD'', ''GBP'', ''JPY'']"
  let ?rates = "[(''CHF'', JFloat (0.96 :: real)), (''GBP'', JFloat 0.86), (''USD'', JFloat 1.08)]"
  let ?obj = "[(''base'', JStr ''EUR''), (''rates'', JObj ?rates)]"
  let ?err = "[(''result'', JStr ''error'')] :: (string, real json) dict"
  let ?xs = "[JFloat (1.08 :: real), JFloat 0.86]"
  let ?lst = "[(''rates'', JArr ?xs)]"
  let ?str = "[(''rates'', JStr ''n/a'')] :: (string, real json) dict"
  let ?api503 = "Response 503 (Some (JStr ''Service Unavailable'')) :: real api_outcome"
  have quiet: "\<forall>m. utf8_console m = None"
    by (simp add: utf8_console_def)
  have s503: "(400 :: nat) \<le> 503 \<and> (503 :: nat) < 600"
    and s200: "\<not> ((400 :: nat) \<le> 200 \<and> (200 :: nat) < 600)"
    and arr: "(case (JArr [] :: real json) of JObj d \<Rightarrow> False | _ \<Rightarrow> True)"
    and r: "dict_get ?obj ''rates'' = Some (JObj ?rates)"
    and d: "distinct ?T"
    and keys: "filter (\<lambda>c. dict_contains c ?rates) ?T = [''USD'', ''GBP'']"
    and usd: "dict_get ?rates ''USD'' = Some (JFloat 1.08)"
    and norates: "dict_get ?err ''rates'' = None"
    and rl: "dict_get ?lst ''rates'' = Some (JArr ?xs)"
    and nolist: "\<forall>c \<in> set ?T. JStr c \<notin> set ?xs"
    and rs: "dict_get ?str ''rates'' = Some (JStr ''n/a'')"
    and nostr: "\<forall>c \<in> set ?T. \<not> is_substring c ''n/a''"
    by (simp_all add: dict_contains_def)
  have tryp: "fetch_try_printing ascii_console ?T (GetRaises Timeout :: real api_outcome)
                = Inl ValueError"
    and hp: "ascii_console (ErrorFetching ValueError) = Some ValueError"
    by (simp_all add: fetch_try_printing_def ascii_console_def)
  note i1 = fetcher_results
      [of utf8_console ?T ?api503 ValueError ValueError ConnectionError 503
          "Some (JStr ''Service Unavailable'')" "JArr []" ?obj ?rates ?xs "''n/a''"]
  note i2 = fetcher_results
      [of ascii_console ?T "GetRaises Timeout" ValueError ValueError ConnectionError 200
          "Some (JArr [])" "JArr []" ?obj ?rates ?xs "''n/a''"]
  note i3 = fetcher_results
      [of utf8_console ?T ?api503 ValueError ValueError ConnectionError 200
          "Some (JArr [])" "JArr []" ?err ?rates ?xs "''n/a''"]
  note i4 = fetcher_results
      [of utf8_console ?T ?api503 ValueError ValueError ConnectionError 200
          "Some (JArr [])" "JArr []" ?lst ?rates ?xs "''n/a''"]
  note i5 = fetcher_results
      [of utf8_console ?T ?api503 ValueError ValueError ConnectionError 200
          "Some (JArr [])" "JArr []" ?str ?rates ?xs "''n/a''"]
  from i1 s503 have n503: "fetch_latest_rates_from_api ?T ?api503 = None"
    by blast
  from i1 quiet have "fetch_latest_rates_from_api_printing utf8_console ?T ?api503
      = Inr (fetch_latest_rates_from_api ?T ?api503)"
    by blast
  with n503 have a: "fetch_latest_rates_from_api_printing utf8_console ?T ?api503 = Inr None"
    by simp
  from i2 arr
  have b: "fetch_latest_rates_from_api ?T (Response 200 (Some (JArr [])) :: real api_outcome)
             = None"
    by blast
  from i2 s200 r d
  obtain m where m: "fetch_latest_rates_from_api ?T (Response 200 (Some (JObj ?obj))) = Some m"
      "\<forall>c. dict_get m c = (if c \<in> set ?T then dict_get ?rates c else None)"
      "dict_keys m = filter (\<lambda>c. dict_contains c ?rates) ?T"
    by blast
  from m(2) usd have "dict_get m ''USD'' = Some (JFloat 1.08)" "dict_get m ''CHF'' = None"
    by simp_all
  with m(1) m(3) keys
  have c: "\<exists>m. fetch_latest_rates_from_api ?T (Response 200 (Some (JObj ?obj))) = Some m
        \<and> dict_keys m = [''USD'', ''GBP'']
        \<and> dict_get m ''USD'' = Some (JFloat 1.08)
        \<and> dict_get m ''CHF'' = None"
    by simp
  from i3 s200 norates
  have e: "fetch_latest_rates_from_api ?T (Response 200 (Some (JObj ?err))) = Some []"
    by blast
  from i4 s200 rl nolist
  have f: "fetch_latest_rates_from_api ?T (Response 200 (Some (JObj ?lst))) = Some []"
    by blast
  from i5 s200 rs nostr
  have g: "fetch_latest_rates_from_api ?T (Response 200 (Some (JObj ?str))) = Some []"
    by blast
  from i2 tryp hp
  have h: "fetch_latest_rates_from_api_printing ascii_console ?T
             (GetRaises Timeout :: real api_outcome) = Inl ValueError"
    by blast
  have q1: "utf8_console Fetching = None"
    using quiet by simp
  have n1: "JStr ''USD'' \<notin> set ?xs" and n2: "\<not> is_substring ''USD'' ''n/a''"
    by simp_all
  from q1 a s503 arr b s200 d c norates e n1 f n2 g tryp hp h show ?thesis
    by blast
qed

text \<open>
  C6 as stated fails twice. A response that is a JSON object without a \<open>rates\<close> entry
  (an error report of the API, say) is not answered with \<open>None\<close> but with the empty
  mapping; and on a console that cannot print the progress lines the exception of the
  handler's own \<open>print\<close> reaches the caller.
\<close>

theorem fetcher_empty_mapping_and_raise:
  "fetch_latest_rates_from_api TARGET_CURRENCIES
      (Response 200 (Some (JObj [(''result'', JStr ''error'')])) :: real api_outcome)
     = Some []
   \<and> fetch_latest_rates_from_api_printing utf8_console TARGET_CURRENCIES
      (Response 200 (Some (JObj [(''result'', JStr ''error'')])) :: real api_outcome)
     = Inr (Some [])
   \<and> fetch_latest_rates_from_api_printing ascii_console TARGET_CURRENCIES
      (GetRaises Timeout :: real api_outcome)
     = Inl ValueError"
proof -
  have "filter_rates (JObj []) TARGET_CURRENCIES acc = Inr acc"
    for acc :: "(string, real json) dict"
    by (rule filter_rates_no_match) (simp add: dict_contains_def)
  then have a: "fetch_try TARGET_CURRENCIES
      (Response 200 (Some (JObj [(''result'', JStr ''error'')])) :: real api_outcome) = Inr []"
    by (simp add: fetch_try_def get_default_def)
  from a show ?thesis
    by (simp add: fetch_latest_rates_from_api_def fetch_latest_rates_from_api_printing_def
          fetch_try_printing_def utf8_console_def ascii_console_def)
qed

section \<open>The bootstrap snapshot\<close>

lemma py_max_Max: "xs \<noteq> [] \<Longrightarrow> py_max xs = Inr (Max (set xs))"
proof (cases xs)
  case Nil
  then show "xs \<noteq> [] \<Longrightarrow> ?thesis"
    by simp
next
  case (Cons x ys)
  have "(\<lambda>item best. if best < item then item else best) = (max :: 'a \<Rightarrow> 'a \<Rightarrow> 'a)"
    by (auto simp: fun_eq_iff max_def)
  with Cons Max.set_eq_fold [of x ys] show ?thesis
    by simp
qed

lemma dict_get_Max_key:
  "d \<noteq> [] \<Longrightarrow> \<exists>v. dict_get d (Max (set (dict_keys d))) = Some v"
proof -
  assume "d \<noteq> []"
  then have "Max (set (map fst d)) \<in> set (map fst d)"
    by (intro Max_in) simp_all
  then have "dict_get d (Max (set (map fst d))) \<noteq> None"
    by (simp only: dict_get_None_iff not_not)
  then show ?thesis
    by (auto simp: dict_keys_def)
qed

text \<open>The loop never raises: a position beyond the row is skipped like a \<open>None\<close>.\<close>

lemma latest_rates_loop_fold:
  "latest_rates_loop (enumerate n cs) arr acc
     = Inr (fold (\<lambda>(c, v) acc. if v \<noteq> JNull then dict_set acc c v else acc)
              (zip cs (drop n arr)) acc)"
proof (induction cs arbitrary: n acc)
  case Nil
  show ?case
    by simp
next
  case (Cons c cs)
  show ?case
  proof (cases "n < length arr")
    case True
    then have d: "drop n arr = arr ! n # drop (Suc n) arr"
      by (simp add: Cons_nth_drop_Suc)
    from True show ?thesis
      by (simp add: d py_index_def Cons.IH)
  next
    case False
    then have "drop n arr = []" "drop (Suc n) arr = []"
      by simp_all
    with False show ?thesis
      by (simp add: Cons.IH)
  qed
qed

lemma fold_skip_null:
  "fold (\<lambda>(c, v) acc. if v \<noteq> JNull then dict_set acc c v else acc) ps acc
     = dict_update acc (filter (\<lambda>(c, v). v \<noteq> JNull) ps)"
  by (induction ps arbitrary: acc) (auto simp: dict_update_def)

lemma dict_update_fresh:
  "distinct (map fst ps) \<Longrightarrow> set (map fst ps) \<inter> set (map fst acc) = {} \<Longrightarrow>
   dict_update acc ps = acc @ ps"
proof (induction ps arbitrary: acc)
  case Nil
  show ?case
    by (simp add: dict_update_def)
next
  case (Cons p ps)
  obtain k v where p: "p = (k, v)"
    by (cases p)
  from Cons.prems p have k: "k \<notin> set (map fst acc)"
    by auto
  have app: "dict_set acc k v = acc @ [(k, v)]"
    using k by (induction acc) auto
  from Cons.prems p have "set (map fst ps) \<inter> set (map fst (acc @ [(k, v)])) = {}"
    by auto
  with Cons.IH [of "acc @ [(k, v)]"] Cons.prems p have "dict_update (acc @ [(k, v)]) ps
      = (acc @ [(k, v)]) @ ps"
    by simp
  then show ?case
    by (simp add: p dict_update_def app)
qed

lemma distinct_fst_filter_zip:
  "distinct cs \<Longrightarrow> distinct (map fst (filter P (zip cs arr)))"
proof -
  assume "distinct cs"
  then have "distinct (map fst (zip cs arr))"
    by (simp add: map_fst_zip_take)
  then show ?thesis
    by (simp add: distinct_map_filter)
qed

lemma dict_get_update_None:
  "k \<notin> set (map fst ps) \<Longrightarrow> dict_get (dict_update acc ps) k = dict_get acc k"
  by (induction ps arbitrary: acc) (auto simp: dict_update_def dict_get_set)


lemma filter_zip_nulls: "filter (\<lambda>(c, v). v \<noteq> JNull) (zip cs (replicate n JNull)) = []"
proof (induction cs arbitrary: n)
  case Nil
  show ?case
    by simp
next
  case (Cons c cs)
  then show ?case
    by (cases n) simp_all
qed

lemma filter_zip_pad:
  "filter (\<lambda>(c, v). v \<noteq> JNull) (zip cs (arr @ replicate n JNull))
     = filter (\<lambda>(c, v). v \<noteq> JNull) (zip cs arr)"
proof (induction cs arbitrary: arr)
  case Nil
  show ?case
    by simp
next
  case (Cons c cs)
  show ?case
  proof (cases arr)
    case Nil
    then show ?thesis
      using filter_zip_nulls [of "c # cs" n] by simp
  next
    case (Cons v vs)
    then show ?thesis
      by (simp add: Cons.IH)
  qed
qed

lemma bootstrap_loop:
  "latest_rates_loop (enumerate 0 cs) arr []
     = Inr (dict_update [] (filter (\<lambda>(c, v). v \<noteq> JNull) (zip cs arr)))"
  using latest_rates_loop_fold [of 0 cs arr "[]"] by (simp add: fold_skip_null)

text \<open>
  Without a year, or with a latest year that holds no day, \<open>max\<close> raises and no snapshot
  is made.
\<close>

lemma bootstrap_latest_data_empty:
  "src_data src = [] \<Longrightarrow> bootstrap_latest_data src now = Inl ValueError"
  "src_data src \<noteq> [] \<Longrightarrow>
     dict_get (src_data src) (Max (set (dict_keys (src_data src)))) = Some [] \<Longrightarrow>
     bootstrap_latest_data src now = Inl ValueError"
  by (simp_all add: bootstrap_latest_data_def dict_keys_def py_max_Max)

lemma bootstrap_latest_data_row:
  assumes ne: "src_data src \<noteq> []"
    and y: "dict_get (src_data src) (Max (set (dict_keys (src_data src)))) = Some year_data"
    and yne: "year_data \<noteq> []"
  shows "\<exists>arr. dict_get year_data (Max (set (dict_keys year_data))) = Some arr
      \<and> bootstrap_latest_data src now
          = Inr \<lparr>ld_date = Max (set (dict_keys year_data)),
                 ld_base_currency = ''EUR'',
                 ld_rates = dict_update []
                   (filter (\<lambda>(c, v). v \<noteq> JNull) (zip (src_currencies src) arr)),
                 ld_last_updated = now\<rparr>
      \<and> (distinct (src_currencies src) \<longrightarrow>
           dict_update [] (filter (\<lambda>(c, v). v \<noteq> JNull) (zip (src_currencies src) arr))
             = filter (\<lambda>(c, v). v \<noteq> JNull) (zip (src_currencies src) arr))"
proof -
  have m1: "py_max (dict_keys (src_data src)) = Inr (Max (set (dict_keys (src_data src))))"
    using ne by (simp add: py_max_Max dict_keys_def)
  from yne obtain arr
    where a: "dict_get year_data (Max (set (dict_keys year_data))) = Some arr"
    using dict_get_Max_key by blast
  have m2: "py_max (dict_keys year_data) = Inr (Max (set (dict_keys year_data)))"
    using yne by (simp add: py_max_Max dict_keys_def)
  have run: "bootstrap_latest_data src now
        = Inr \<lparr>ld_date = Max (set (dict_keys year_data)),
               ld_base_currency = ''EUR'',
               ld_rates = dict_update []
                 (filter (\<lambda>(c, v). v \<noteq> JNull) (zip (src_currencies src) arr)),
               ld_last_updated = now\<rparr>"
    by (simp add: bootstrap_latest_data_def m1 y m2 a bootstrap_loop)
  have pairs: "dict_update [] (filter (\<lambda>(c, v). v \<noteq> JNull) (zip (src_currencies src) arr))
           = filter (\<lambda>(c, v). v \<noteq> JNull) (zip (src_currencies src) arr)"
    if "distinct (src_currencies src)"
    using dict_update_fresh [of "filter (\<lambda>(c, v). v \<noteq> JNull) (zip (src_currencies src) arr)" "[]"]
      distinct_fst_filter_zip [OF that, of "\<lambda>(c, v). v \<noteq> JNull" arr]
    by simp
  from a run pairs show ?thesis
    by blast
qed

text \<open>
  C7, as the script has it. For a dataset with at least one year whose greatest
  year-key holds at least one day (as every year does that a merge has created), the
  snapshot of the bootstrap script is taken from the row under the greatest day-key of
  the greatest year-key: its date is that day-key as it is stored, and its rates are
  the entries of the row that are not \<open>None\<close>, each under the currency name at its
  position, assigned in that order. When no currency name occurs twice these are
  exactly the pairs of name and rate, in order. For a dataset without a year, or whose
  greatest year-key holds no day, \<open>max\<close> raises \<open>ValueError\<close> and there is no snapshot.
\<close>

theorem latest_snapshot_of_latest_row:
  "(src_data src = [] \<longrightarrow> bootstrap_latest_data src now = Inl ValueError)
   \<and> (src_data src \<noteq> [] \<longrightarrow>
     (\<exists>year_data.
        dict_get (src_data src) (Max (set (dict_keys (src_data src)))) = Some year_data
        \<and> (year_data = [] \<longrightarrow> bootstrap_latest_data src now = Inl ValueError)
        \<and> (year_data \<noteq> [] \<longrightarrow>
             (\<exists>arr. dict_get year_data (Max (set (dict_keys year_data))) = Some arr
                \<and> bootstrap_latest_data src now
                    = Inr \<lparr>ld_date = Max (set (dict_keys year_data)),
                           ld_base_currency = ''EUR'',
                           ld_rates = dict_update []
                             (filter (\<lambda>(c, v). v \<noteq> JNull) (zip (src_currencies src) arr)),
                           ld_last_updated = now\<rparr>
                \<and> (distinct (src_currencies src) \<longrightarrow>
                     dict_update [] (filter (\<lambda>(c, v). v \<noteq> JNull) (zip (src_currencies src) arr))
                       = filter (\<lambda>(c, v). v \<noteq> JNull) (zip (src_currencies src) arr))))))"
proof (intro conjI impI)
  show "bootstrap_latest_data src now = Inl ValueError" if "src_data src = []"
    using that by (rule bootstrap_latest_data_empty(1))
next
  assume ne: "src_data src \<noteq> []"
  then obtain year_data
    where y: "dict_get (src_data src) (Max (set (dict_keys (src_data src)))) = Some year_data"
    using dict_get_Max_key by blast
  have empty: "bootstrap_latest_data src now = Inl ValueError" if "year_data = []"
    using bootstrap_latest_data_empty(2) [OF ne, of now] y that by simp
  note row = bootstrap_latest_data_row [OF ne y, of now]
  from y empty row show "\<exists>year_data.
        dict_get (src_data src) (Max (set (dict_keys (src_data src)))) = Some year_data
        \<and> (year_data = [] \<longrightarrow> bootstrap_latest_data src now = Inl ValueError)
        \<and> (year_data \<noteq> [] \<longrightarrow>
             (\<exists>arr. dict_get year_data (Max (set (dict_keys year_data))) = Some arr
                \<and> bootstrap_latest_data src now
                    = Inr \<lparr>ld_date = Max (set (dict_keys year_data)),
                           ld_base_currency = ''EUR'',
                           ld_rates = dict_update []
                             (filter (\<lambda>(c, v). v \<noteq> JNull) (zip (src_currencies src) arr)),
                           ld_last_updated = now\<rparr>
                \<and> (distinct (src_currencies src) \<longrightarrow>
                     dict_update [] (filter (\<lambda>(c, v). v \<noteq> JNull) (zip (src_currencies src) arr))
                       = filter (\<lambda>(c, v). v \<noteq> JNull) (zip (src_currencies src) arr))))"
    by (intro exI [of _ year_data] conjI impI)
qed

theorem latest_snapshot_of_latest_row_witness:
  "src_data \<lparr>src_data =
        [(''2023'', [(''2023-12-29'', [JFloat (1.1 :: real), JFloat 0.87, JFloat 157])]),
         (''2024'', [(''2024-03-14'', [JFloat 1.09, JFloat 0.85, JNull]),
                     (''2024-03-15'', [JFloat 1.08, JNull, JFloat 161])])],
      src_currencies = [''USD'', ''GBP'', ''JPY''], src_total_records = JInt 3\<rparr> \<noteq> []
   \<and> distinct [''USD'', ''GBP'', ''JPY'']
   \<and> bootstrap_latest_data \<lparr>src_data =
        [(''2023'', [(''2023-12-29'', [JFloat (1.1 :: real), JFloat 0.87, JFloat 157])]),
         (''2024'', [(''2024-03-14'', [JFloat 1.09, JFloat 0.85, JNull]),
                     (''2024-03-15'', [JFloat 1.08, JNull, JFloat 161])])],
      src_currencies = [''USD'', ''GBP'', ''JPY''], src_total_records = JInt 3\<rparr>
      ''2024-03-16T08:00:00''
     = Inr \<lparr>ld_date = ''2024-03-15'', ld_base_currency = ''EUR'',
            ld_rates = [(''USD'', JFloat 1.08), (''JPY'', JFloat 161)],
            ld_last_updated = ''2024-03-16T08:00:00''\<rparr>
   \<and> src_data \<lparr>src_data = ([] :: real years), src_currencies = [''USD'', ''GBP'', ''JPY''],
        src_total_records = JInt 0\<rparr> = []
   \<and> bootstrap_latest_data \<lparr>src_data = ([] :: real years),
        src_currencies = [''USD'', ''GBP'', ''JPY''], src_total_records = JInt 0\<rparr>
        ''2024-03-16T08:00:00''
     = Inl ValueError"
proof -
  let ?y23 = "[(''2023-12-29'', [JFloat (1.1 :: real), JFloat 0.87, JFloat 157])]"
  let ?y24 = "[(''2024-03-14'', [JFloat (1.09 :: real), JFloat 0.85, JNull]),
               (''2024-03-15'', [JFloat 1.08, JNull, JFloat 161])]"
  let ?src = "\<lparr>src_data = [(''2023'', ?y23), (''2024'', ?y24)],
      src_currencies = [''USD'', ''GBP'', ''JPY''], src_total_records = JInt 3\<rparr>"
  have ne: "src_data ?src \<noteq> []"
    by simp
  have d: "distinct [''USD'', ''GBP'', ''JPY'']"
    by simp
  have my: "Max (set (dict_keys (src_data ?src))) = ''2024''"
    by (simp add: dict_keys_def max_def)
  have md: "Max (set (dict_keys ?y24)) = ''2024-03-15''"
    by (simp add: dict_keys_def max_def)
  from latest_snapshot_of_latest_row [of ?src "''2024-03-16T08:00:00''"] ne
  obtain year_data where y: "dict_get (src_data ?src) (Max (set (dict_keys (src_data ?src))))
        = Some year_data"
    and rest: "year_data \<noteq> [] \<longrightarrow>
       (\<exists>arr. dict_get year_data (Max (set (dict_keys year_data))) = Some arr
          \<and> bootstrap_latest_data ?src ''2024-03-16T08:00:00''
              = Inr \<lparr>ld_date = Max (set (dict_keys year_data)),
                     ld_base_currency = ''EUR'',
                     ld_rates = dict_update []
                       (filter (\<lambda>(c, v). v \<noteq> JNull) (zip (src_currencies ?src) arr)),
                     ld_last_updated = ''2024-03-16T08:00:00''\<rparr>
          \<and> (distinct (src_currencies ?src) \<longrightarrow>
               dict_update [] (filter (\<lambda>(c, v). v \<noteq> JNull) (zip (src_currencies ?src) arr))
                 = filter (\<lambda>(c, v). v \<noteq> JNull) (zip (src_currencies ?src) arr)))"
    by blast
  from y have yd: "year_data = ?y24"
    unfolding my by simp
  from rest obtain arr where a: "dict_get ?y24 (Max (set (dict_keys ?y24))) = Some arr"
    and run: "bootstrap_latest_data ?src ''2024-03-16T08:00:00''
              = Inr \<lparr>ld_date = Max (set (dict_keys ?y24)),
                     ld_base_currency = ''EUR'',
                     ld_rates = dict_update []
                       (filter (\<lambda>(c, v). v \<noteq> JNull) (zip (src_currencies ?src) arr)),
                     ld_last_updated = ''2024-03-16T08:00:00''\<rparr>"
    and pairs: "distinct (src_currencies ?src) \<longrightarrow>
               dict_update [] (filter (\<lambda>(c, v). v \<noteq> JNull) (zip (src_currencies ?src) arr))
                 = filter (\<lambda>(c, v). v \<noteq> JNull) (zip (src_currencies ?src) arr)"
    unfolding yd by blast
  from a have arr: "arr = [JFloat 1.08, JNull, JFloat 161]"
    unfolding md by simp
  from pairs d have "dict_update [] (filter (\<lambda>(c, v). v \<noteq> JNull) (zip (src_currencies ?src) arr))
      = [(''USD'', JFloat 1.08), (''JPY'', JFloat 161)]"
    unfolding arr by simp
  with run have "bootstrap_latest_data ?src ''2024-03-16T08:00:00''
     = Inr \<lparr>ld_date = ''2024-03-15'', ld_base_currency = ''EUR'',
            ld_rates = [(''USD'', JFloat 1.08), (''JPY'', JFloat 161)],
            ld_last_updated = ''2024-03-16T08:00:00''\<rparr>"
    unfolding md by simp
  moreover have "src_data \<lparr>src_data = ([] :: real years),
        src_currencies = [''USD'', ''GBP'', ''JPY''], src_total_records = JInt 0\<rparr> = []"
    by simp
  moreover from this latest_snapshot_of_latest_row
      [of "\<lparr>src_data = ([] :: real years), src_currencies = [''USD'', ''GBP'', ''JPY''],
            src_total_records = JInt 0\<rparr>" "''2024-03-16T08:00:00''"]
  have "bootstrap_latest_data \<lparr>src_data = ([] :: real years),
        src_currencies = [''USD'', ''GBP'', ''JPY''], src_total_records = JInt 0\<rparr>
        ''2024-03-16T08:00:00'' = Inl ValueError"
    by blast
  ultimately show ?thesis
    using ne d by blast
qed

text \<open>
  C7 as stated fails for a dataset that is not empty but whose greatest year-key holds
  no day: there is a row for 2023, the bucket of 2024 is empty, and \<open>max\<close> raises. And
  the date of the snapshot is the day-key itself: under month-day keys it is \<open>03-15\<close>,
  not the date of the row.
\<close>

theorem latest_snapshot_empty_latest_year:
  "bootstrap_latest_data \<lparr>src_data =
        [(''2023'', [(''2023-12-29'', [JFloat (1.1 :: real), JFloat 0.87, JFloat 157])]),
         (''2024'', [])],
      src_currencies = [''USD'', ''GBP'', ''JPY''], src_total_records = JInt 1\<rparr>
      ''2024-03-16T08:00:00''
     = Inl ValueError
   \<and> bootstrap_latest_data \<lparr>src_data =
        [(''2024'', [(''03-15'', [JFloat (1.08 :: real), JFloat 0.86, JNull])])],
      src_currencies = [''USD'', ''GBP'', ''JPY''], src_total_records = JInt 1\<rparr>
      ''2024-03-16T08:00:00''
     = Inr \<lparr>ld_date = ''03-15'', ld_base_currency = ''EUR'',
            ld_rates = [(''USD'', JFloat 1.08), (''GBP'', JFloat 0.86)],
            ld_last_updated = ''2024-03-16T08:00:00''\<rparr>"
  by (simp add: bootstrap_latest_data_def dict_keys_def py_index_def)

text \<open>
  C10. The loop that builds the snapshot's rates returns for every row and every
  currency list: it never raises. A row shorter than the currency list gives what the
  same row gives when padded with \<open>None\<close>, and a currency that stands only at positions
  beyond the end of the row is not a key of the result.
\<close>

theorem snapshot_loop_total:
  "latest_rates_loop (enumerate 0 cs) arr []
     = Inr (dict_update [] (filter (\<lambda>(c, v). v \<noteq> JNull) (zip cs arr)))
   \<and> latest_rates_loop (enumerate 0 cs) (arr @ replicate n JNull) []
     = latest_rates_loop (enumerate 0 cs) arr []
   \<and> (\<forall>c. c \<notin> set (take (length arr) cs) \<longrightarrow>
         dict_get (dict_update [] (filter (\<lambda>(c, v). v \<noteq> JNull) (zip cs arr))) c = None)"
proof -
  have "set (map fst (filter (\<lambda>(c, v). v \<noteq> JNull) (zip cs arr)))
          \<subseteq> set (map fst (zip cs arr))"
    by auto
  also have "map fst (zip cs arr) = take (min (length cs) (length arr)) cs"
    by (rule map_fst_zip_take)
  also have "set (take (min (length cs) (length arr)) cs) = set (take (length arr) cs)"
    by (simp add: min_def)
  finally have "c \<notin> set (take (length arr) cs) \<Longrightarrow>
      dict_get (dict_update [] (filter (\<lambda>(c, v). v \<noteq> JNull) (zip cs arr))) c = None" for c
    using dict_get_update_None [of c "filter (\<lambda>(c, v). v \<noteq> JNull) (zip cs arr)" "[]"]
    by auto
  then show ?thesis
    by (simp add: bootstrap_loop filter_zip_pad)
qed

theorem snapshot_loop_total_witness:
  "''JPY'' \<notin> set (take (length [JFloat (1.08 :: real), JNull]) [''USD'', ''GBP'', ''JPY''])
   \<and> latest_rates_loop (enumerate 0 [''USD'', ''GBP'', ''JPY'']) [JFloat (1.08 :: real), JNull] []
       = Inr [(''USD'', JFloat 1.08)]
   \<and> dict_get [(''USD'', JFloat (1.08 :: real))] ''JPY'' = None"
proof -
  have u: "dict_update [] (filter (\<lambda>(c, v). v \<noteq> JNull)
             (zip [''USD'', ''GBP'', ''JPY''] [JFloat (1.08 :: real), JNull]))
           = [(''USD'', JFloat 1.08)]"
    by (simp add: dict_update_def)
  have t: "''JPY'' \<notin> set (take (length [JFloat (1.08 :: real), JNull]) [''USD'', ''GBP'', ''JPY''])"
    by simp
  from snapshot_loop_total [of "[''USD'', ''GBP'', ''JPY'']" "[JFloat (1.08 :: real), JNull]" 1] t
  show ?thesis
    unfolding u by blast
qed


section \<open>The metadata document\<close>

text \<open>
  C8, as the scripts have it. The metadata document takes \<open>total_records\<close> from the
  dataset's own entry (in an update script, the entry that the merge has just set), and
  its \<open>supported_currencies\<close> is the base currency followed by the whole currency list:
  one entry more than the list. Nothing is removed: the base currency occurs once more
  than it does in the currency list. The allow-list of the update scripts does not hold
  the base currency, so there it occurs once.
\<close>

theorem metadata_from_dataset:
  "(dict_get (metadata d1) ''total_records'' = Some n \<longrightarrow>
      (\<exists>md. ucd_metadata_doc T d1 today now a b = Inr md
         \<and> md_total_records md = n
         \<and> md_supported_currencies md = ''EUR'' # T
         \<and> length (md_supported_currencies md) = length T + 1
         \<and> count_list (md_supported_currencies md) ''EUR'' = count_list T ''EUR'' + 1))
   \<and> (dict_get (uad_metadata e1) ''total_records'' = Some n \<longrightarrow>
      (\<exists>md. uad_metadata_doc T e1 today now a b = Inr md
         \<and> md_total_records md = n
         \<and> md_supported_currencies md = ''EUR'' # T
         \<and> length (md_supported_currencies md) = length T + 1
         \<and> count_list (md_supported_currencies md) ''EUR'' = count_list T ''EUR'' + 1))
   \<and> (\<exists>md. ucd_metadata_doc T (ucd_merge T d cy t r ts) today now a b = Inr md
         \<and> Some (md_total_records md)
             = dict_get (metadata (ucd_merge T d cy t r ts)) ''total_records'')
   \<and> (\<exists>md. uad_metadata_doc T (uad_merge T e cy t r ts) today now a b = Inr md
         \<and> Some (md_total_records md)
             = dict_get (uad_metadata (uad_merge T e cy t r ts)) ''total_records'')
   \<and> md_total_records (bootstrap_metadata src latest_date now a b) = src_total_records src
   \<and> md_supported_currencies (bootstrap_metadata src latest_date now a b)
       = ''EUR'' # src_currencies src
   \<and> length (md_supported_currencies (bootstrap_metadata src latest_date now a b))
       = length (src_currencies src) + 1
   \<and> count_list (md_supported_currencies (bootstrap_metadata src latest_date now a b)) ''EUR''
       = count_list (src_currencies src) ''EUR'' + 1
   \<and> count_list TARGET_CURRENCIES ''EUR'' = 0"
proof -
  have u: "dict_get (metadata (ucd_merge T d cy t r ts)) ''total_records''
          = Some (JInt (count_records (rates_by_year (ucd_merge T d cy t r ts))))"
    by (simp add: ucd_merge_def Let_def dict_get_update3)
  have v: "dict_get (uad_metadata (uad_merge T e cy t r ts)) ''total_records''
          = Some (JInt (count_records (uad_years (uad_merge T e cy t r ts))))"
    by (simp add: uad_merge_def Let_def dict_get_update2)
  show ?thesis
    unfolding u v
    by (simp add: ucd_metadata_doc_def uad_metadata_doc_def bootstrap_metadata_def u v
          TARGET_CURRENCIES_def)
qed

theorem metadata_from_dataset_witness:
  "dict_get (metadata \<lparr>metadata = [(''base_currency'', JStr ''EUR''), (''total_records'', JInt 7)],
        currencies = None, rates_by_year = ([] :: real years)\<rparr>) ''total_records''
     = Some (JInt 7)
   \<and> (\<exists>md. ucd_metadata_doc TARGET_CURRENCIES
          \<lparr>metadata = [(''base_currency'', JStr ''EUR''), (''total_records'', JInt 7)],
           currencies = None, rates_by_year = ([] :: real years)\<rparr>
          ''2024-03-15'' ''2024-03-15T06:00:03'' 0.01 0.5 = Inr md
        \<and> md_total_records md = JInt 7
        \<and> length (md_supported_currencies md) = 30)"
proof -
  let ?d = "\<lparr>metadata = [(''base_currency'', JStr ''EUR''), (''total_records'', JInt 7)],
        currencies = None, rates_by_year = ([] :: real years)\<rparr>"
  have g: "dict_get (metadata ?d) ''total_records'' = Some (JInt 7)"
    by simp
  have l: "length TARGET_CURRENCIES = 29"
    by (simp add: TARGET_CURRENCIES_def)
  from metadata_from_dataset [of ?d "JInt 7" TARGET_CURRENCIES "''2024-03-15''"
         "''2024-03-15T06:00:03''" "0.01" "0.5" "uad_new_structure [] []"] g
  obtain md where "ucd_metadata_doc TARGET_CURRENCIES ?d ''2024-03-15'' ''2024-03-15T06:00:03''
         0.01 0.5 = Inr md"
    and "md_total_records md = JInt 7"
    and "length (md_supported_currencies md) = length TARGET_CURRENCIES + 1"
    by blast
  with g l show ?thesis
    by auto
qed

text \<open>
  C8 as stated fails where it says that the base currency is not duplicated: the
  bootstrap script prepends \<open>EUR\<close> to whatever currency list the source file has, so a
  list that holds \<open>EUR\<close> gives \<open>supported_currencies\<close> with \<open>EUR\<close> twice.
\<close>

theorem base_currency_duplicated:
  "md_supported_currencies (bootstrap_metadata
      \<lparr>src_data = [(''2024'', [(''2024-03-15'', [JFloat (1 :: real), JFloat 1.08])])],
       src_currencies = [''EUR'', ''USD''], src_total_records = JInt 1\<rparr>
      ''2024-03-15'' ''2024-03-16T08:00:00'' 0.01 0.2)
     = [''EUR'', ''EUR'', ''USD'']
   \<and> \<not> distinct (md_supported_currencies (bootstrap_metadata
      \<lparr>src_data = [(''2024'', [(''2024-03-15'', [JFloat (1 :: real), JFloat 1.08])])],
       src_currencies = [''EUR'', ''USD''], src_total_records = JInt 1\<rparr>
      ''2024-03-15'' ''2024-03-16T08:00:00'' 0.01 0.2))"
  by (simp add: bootstrap_metadata_def)

end
